theory Spec2Isabelle
  imports Complex_Main "HOL-Library.Char_ord" "HOL-Library.List_Lexorder" "HOL-Library.Log_Nat"
begin

chapter \<open>Model of the program\<close>

section \<open>Calendar dates\<close>

text \<open>
  A \<^verbatim>\<open>datetime.date\<close> is represented by its proleptic Gregorian ordinal
  (\<^verbatim>\<open>date.toordinal()\<close>: 1 is 0001-01-01). Comparison of dates is comparison of ordinals,
  adding a \<^verbatim>\<open>timedelta(days=k)\<close> is adding \<open>k\<close>, and the result must stay inside
  \<^verbatim>\<open>date.min .. date.max\<close>, otherwise Python raises \<^verbatim>\<open>OverflowError\<close>.
  The time of day of a \<^verbatim>\<open>datetime\<close> is carried along unchanged by every operation
  used below and is never inspected, so it is left out.
\<close>

type_synonym date = int

datatype error = OverflowError | ValueError

definition MINORD :: int where
  "MINORD = 1"

definition MAXORD :: int where
  "MAXORD = 3652059"

definition is_leap :: "int \<Rightarrow> bool" where
  "is_leap y = (y mod 4 = 0 \<and> (y mod 100 \<noteq> 0 \<or> y mod 400 = 0))"

definition days_before_year :: "int \<Rightarrow> int" where
  "days_before_year y = (y - 1) * 365 + (y - 1) div 4 - (y - 1) div 100 + (y - 1) div 400"

definition days_in_month :: "int \<Rightarrow> int \<Rightarrow> int" where
  "days_in_month y m =
     (if m = 2 then (if is_leap y then 29 else 28)
      else if m = 4 \<or> m = 6 \<or> m = 9 \<or> m = 11 then 30 else 31)"

definition days_before_month :: "int \<Rightarrow> int \<Rightarrow> int" where
  "days_before_month y m = (\<Sum>k \<leftarrow> [1..m - 1]. days_in_month y k)"

definition ymd2ord :: "int \<Rightarrow> int \<Rightarrow> int \<Rightarrow> date" where
  "ymd2ord y m d = days_before_year y + days_before_month y m + d"

text \<open>The constructor \<^verbatim>\<open>datetime(y, m, d).date()\<close>: \<^verbatim>\<open>ValueError\<close> on a date that
  does not exist.\<close>

definition mk_date :: "int \<Rightarrow> int \<Rightarrow> int \<Rightarrow> error + date" where
  "mk_date y m d =
     (if 1 \<le> y \<and> y \<le> 9999 \<and> 1 \<le> m \<and> m \<le> 12 \<and> 1 \<le> d \<and> d \<le> days_in_month y m
      then Inr (ymd2ord y m d) else Inl ValueError)"

text \<open>\<^verbatim>\<open>fecha + timedelta(days=k)\<close>.\<close>

definition add_days :: "date \<Rightarrow> int \<Rightarrow> error + date" where
  "add_days f k = (if MINORD \<le> f + k \<and> f + k \<le> MAXORD then Inr (f + k) else Inl OverflowError)"

text \<open>\<^verbatim>\<open>date.weekday()\<close>: Monday is 0, Sunday is 6.\<close>

definition weekday :: "date \<Rightarrow> int" where
  "weekday f = (f + 6) mod 7"

section \<open>Business calendar\<close>

text \<open>
  \<^verbatim>\<open>COLOMBIA_FESTIVOS\<close> is a set of ISO strings and \<^verbatim>\<open>es_dia_habil\<close> looks
  \<^verbatim>\<open>fecha.strftime("%Y-%m-%d")\<close> up in it. The six strings are kept as (year, month, day);
  a date formats to one of them exactly when it is that date.
\<close>

definition COLOMBIA_FESTIVOS :: "(int \<times> int \<times> int) list" where
  "COLOMBIA_FESTIVOS =
     [(2025, 1, 1), (2025, 5, 1), (2025, 7, 20), (2025, 8, 7), (2025, 12, 8), (2025, 12, 25)]"

definition es_festivo :: "date \<Rightarrow> bool" where
  "es_festivo f = (f \<in> set (map (\<lambda>(y, m, d). ymd2ord y m d) COLOMBIA_FESTIVOS))"

definition es_dia_habil :: "date \<Rightarrow> bool" where
  "es_dia_habil f = (if weekday f \<ge> 5 then False else \<not> es_festivo f)"

text \<open>
  The loop of \<^verbatim>\<open>fecha_limite_habiles\<close>, from the state (\<open>fecha\<close>, \<open>contador\<close>).
  Each round adds one day, which raises at \<^verbatim>\<open>date.max\<close>.
\<close>

function habiles_loop :: "date \<Rightarrow> int \<Rightarrow> int \<Rightarrow> error + date" where
  "habiles_loop fecha contador dias_habiles =
     (if contador < dias_habiles then
        (case add_days fecha 1 of
           Inl e \<Rightarrow> Inl e
         | Inr fecha' \<Rightarrow>
             habiles_loop fecha' (if es_dia_habil fecha' then contador + 1 else contador)
               dias_habiles)
      else Inr fecha)"
  by pat_completeness auto
termination
  by (relation "measure (\<lambda>(fecha, contador, dias_habiles). nat (MAXORD - fecha))")
     (auto simp: add_days_def split: if_splits)

declare habiles_loop.simps [simp del]

definition fecha_limite_habiles :: "date \<Rightarrow> int \<Rightarrow> error + date" where
  "fecha_limite_habiles fecha_expedicion dias_habiles = habiles_loop fecha_expedicion 0 dias_habiles"

text \<open>The number of business days strictly after \<open>a\<close> up to and including \<open>b\<close>.\<close>

definition habiles_entre :: "date \<Rightarrow> date \<Rightarrow> int" where
  "habiles_entre a b = int (length (filter es_dia_habil [a + 1..b]))"

section \<open>Strings\<close>

text \<open>
  A Python \<^verbatim>\<open>str\<close> is a list of code points. The model covers the code points
  0 to 255 (Latin-1), which hold every character of the program's own tables
  (keywords, titles, markers, the accented vowels and the letter n with tilde): a \<^typ>\<open>char\<close> is
  the code point with that number, and \<^typ>\<open>string\<close> is the text. The character classes
  below are those of Python 3 on this range.
\<close>

definition cp :: "char \<Rightarrow> int" where
  "cp c = of_char c"

text \<open>\<^verbatim>\<open>str.lower()\<close>, per character: A-Z and the upper-case letters of Latin-1
  (0xC0-0xDE without the multiplication sign 0xD7) move up by 32.\<close>

definition lower_char :: "char \<Rightarrow> char" where
  "lower_char c =
     (if (65 \<le> cp c \<and> cp c \<le> 90) \<or> (192 \<le> cp c \<and> cp c \<le> 222 \<and> cp c \<noteq> 215)
      then char_of (cp c + 32) else c)"

definition lower :: "string \<Rightarrow> string" where
  "lower s = map lower_char s"

text \<open>\<^verbatim>\<open>\d\<close> of \<^verbatim>\<open>re\<close> (decimal digits), \<^verbatim>\<open>\s\<close> and \<^verbatim>\<open>str.isspace\<close>,
  and \<^verbatim>\<open>\w\<close> (alphanumeric or underscore).\<close>

definition is_digit :: "char \<Rightarrow> bool" where
  "is_digit c = (48 \<le> cp c \<and> cp c \<le> 57)"

definition is_space :: "char \<Rightarrow> bool" where
  "is_space c = ((9 \<le> cp c \<and> cp c \<le> 13) \<or> (28 \<le> cp c \<and> cp c \<le> 32) \<or> cp c = 133 \<or> cp c = 160)"

definition is_word :: "char \<Rightarrow> bool" where
  "is_word c =
     (is_digit c \<or> (65 \<le> cp c \<and> cp c \<le> 90) \<or> (97 \<le> cp c \<and> cp c \<le> 122) \<or> cp c = 95
      \<or> cp c = 170 \<or> cp c = 178 \<or> cp c = 179 \<or> cp c = 181 \<or> cp c = 185 \<or> cp c = 186
      \<or> cp c = 188 \<or> cp c = 189 \<or> cp c = 190
      \<or> (192 \<le> cp c \<and> cp c \<le> 214) \<or> (216 \<le> cp c \<and> cp c \<le> 246) \<or> 248 \<le> cp c)"

text \<open>\<^verbatim>\<open>s.startswith(p)\<close> and \<^verbatim>\<open>p in s\<close>.\<close>

fun startswith :: "string \<Rightarrow> string \<Rightarrow> bool" where
  "startswith s [] = True"
| "startswith [] (p # ps) = False"
| "startswith (c # cs) (p # ps) = (c = p \<and> startswith cs ps)"

fun contiene :: "string \<Rightarrow> string \<Rightarrow> bool" where
  "contiene [] p = (p = [])"
| "contiene (c # cs) p = (startswith (c # cs) p \<or> contiene cs p)"

text \<open>\<^verbatim>\<open>s.strip()\<close>.\<close>

definition strip :: "string \<Rightarrow> string" where
  "strip s = rev (dropWhile is_space (rev (dropWhile is_space s)))"

section \<open>Checklist evaluation\<close>

text \<open>
  A checklist entry of \<^verbatim>\<open>CHECKLIST\<close> (the keys \<^verbatim>\<open>id\<close> and \<^verbatim>\<open>keywords\<close> are the fields \<open>item_id\<close> and \<open>item_keywords\<close>) and a
  Document as \<^verbatim>\<open>agrupar_paginas_en_documentos\<close> builds it. \<^verbatim>\<open>fecha_documento\<close> holds
  an ISO string or \<^verbatim>\<open>None\<close>; OCR confidences are floats, modelled as reals.
\<close>

record item =
  item_id :: string
  titulo :: string
  item_keywords :: "string list"
  requerido :: bool
  vigencia_dias :: "int option"

record documento =
  archivo :: string
  ruta_archivo :: string
  paginas :: "nat list"
  texto :: string
  ocr_conf :: real
  tipo_detectado :: string
  nit_o_cedula :: "string option"
  fecha_documento :: "string option"
  firma_manuscrita :: bool

text \<open>The four status strings \<^verbatim>\<open>"C"\<close>, \<^verbatim>\<open>"Falta"\<close>, \<^verbatim>\<open>"Revision"\<close> (written with an accented o) and \<^verbatim>\<open>"N/A"\<close>
  (Complete, Missing, NeedsReview, NotApplicable).\<close>

datatype estado = C | Falta | Revision | NA

text \<open>
  The observation messages, one constructor per message of \<^verbatim>\<open>evaluar_item\<close>, carrying
  the values the message interpolates (\<open>ObsVigente\<close> and \<open>ObsVencido\<close>: receipt date,
  limit, issuance date, window).
\<close>

datatype observacion =
    ObsNoAplicaNatural
  | ObsSoloNatural
  | ObsSoloConsorcio
  | ObsInferencia
  | ObsRedetectada
  | ObsSinRecepcion
  | ObsVigente date date date int
  | ObsVencido date date date int
  | ObsErrorVigencia error
  | ObsSinFecha
  | ObsOCRBaja real
  | ObsSinFirma

text \<open>
  What the evaluation takes from outside this file or from the clock:
  \<open>parse_date s\<close> is \<^verbatim>\<open>dateutil.parser.parse(s, dayfirst=True).date()\<close>, \<open>None\<close> when it
  raises; \<open>extraer_fecha\<close> is \<^verbatim>\<open>extraer_fecha_mejorada\<close> (which calls the same parser and
  reads the clock); \<open>isoformat\<close> is \<^verbatim>\<open>date.isoformat\<close>.
\<close>

record entorno =
  parse_date :: "string \<Rightarrow> date option"
  extraer_fecha :: "string \<Rightarrow> bool \<Rightarrow> date option"
  isoformat :: "date \<Rightarrow> string"

text \<open>The values \<^verbatim>\<open>obtener_fecha_date\<close> tells apart by their type.\<close>

datatype fecha_obj = FNone | FDate date | FDatetime date | FStr string | FOtro

definition obtener_fecha_date :: "entorno \<Rightarrow> fecha_obj \<Rightarrow> date option" where
  "obtener_fecha_date env fecha_obj =
     (case fecha_obj of
        FNone \<Rightarrow> None
      | FDate d \<Rightarrow> Some d
      | FDatetime d \<Rightarrow> Some d
      | FStr s \<Rightarrow> parse_date env s
      | FOtro \<Rightarrow> None)"

text \<open>The applicability gate: the early returns of \<^verbatim>\<open>evaluar_item\<close>.\<close>

definition puerta :: "string \<Rightarrow> item \<Rightarrow> observacion option" where
  "puerta peticionario_tipo it =
     (if peticionario_tipo = ''persona_natural'' \<and> item_id it \<in> set [''camara_comercio_nm'', ''rut_nm'']
      then Some ObsNoAplicaNatural
      else if item_id it \<in> set [''cedula_persona_natural'', ''cedula_persona_natural_nm'']
              \<and> peticionario_tipo \<noteq> ''persona_natural''
      then Some ObsSoloNatural
      else if item_id it = ''acta_consorcial'' \<and> peticionario_tipo \<noteq> ''consorcio''
      then Some ObsSoloConsorcio
      else None)"

text \<open>Keyword hits of a Document and the acceptance threshold. \<open>archivo_inferido\<close> is
  the list of inferred ids; \<^verbatim>\<open>None\<close> and the empty list are both falsy and are the
  empty list here.\<close>

definition score_keywords :: "item \<Rightarrow> documento \<Rightarrow> nat" where
  "score_keywords it doc = length (filter (\<lambda>kw. contiene (lower (texto doc)) (lower kw)) (item_keywords it))"

definition es_inferido :: "string list \<Rightarrow> item \<Rightarrow> bool" where
  "es_inferido archivo_inferido it = (item_id it \<in> set archivo_inferido)"

definition cumple_umbral :: "string list \<Rightarrow> item \<Rightarrow> documento \<Rightarrow> bool" where
  "cumple_umbral archivo_inferido it doc =
     ((es_inferido archivo_inferido it \<and> score_keywords it doc \<ge> 1)
      \<or> (\<not> es_inferido archivo_inferido it \<and> score_keywords it doc \<ge> 2))"

text \<open>
  The issuance date of a Document: its stored date when that parses, otherwise the date
  extracted again from its text. The flag says that the date was extracted again.
\<close>

definition resolver_fecha :: "entorno \<Rightarrow> item \<Rightarrow> documento \<Rightarrow> date option \<times> bool" where
  "resolver_fecha env it doc =
     (let fecha_doc = (case fecha_documento doc of
                         None \<Rightarrow> None
                       | Some s \<Rightarrow> if s = [] then None else obtener_fecha_date env (FStr s))
      in case fecha_doc of
           Some d \<Rightarrow> (Some d, False)
         | None \<Rightarrow>
             (let contexto_bancario =
                    (contiene (item_id it) ''bancaria'' \<or> contiene (item_id it) ''cert_bancaria'')
              in case extraer_fecha env (texto doc) contexto_bancario of
                   Some d \<Rightarrow> (Some d, True)
                 | None \<Rightarrow> (None, False)))"

text \<open>
  The validity check (the branch \<^verbatim>\<open>if vig:\<close>): the status it sets, the observations it
  appends and the Document with the date written back. An exception inside the
  \<^verbatim>\<open>try\<close> (the walk running past \<^verbatim>\<open>date.max\<close>) ends in \<open>Revision\<close>.
\<close>

definition validar_vigencia ::
  "entorno \<Rightarrow> fecha_obj \<Rightarrow> item \<Rightarrow> int \<Rightarrow> documento \<Rightarrow> estado \<times> observacion list \<times> documento" where
  "validar_vigencia env fecha_recepcion_dt it vig doc =
     (case resolver_fecha env it doc of
        (None, _) \<Rightarrow> (Revision, [ObsSinFecha], doc)
      | (Some fecha_doc, redetectada) \<Rightarrow>
          (let doc' = (if redetectada then doc\<lparr>fecha_documento := Some (isoformat env fecha_doc)\<rparr> else doc);
               obs = (if redetectada then [ObsRedetectada] else [])
           in case obtener_fecha_date env fecha_recepcion_dt of
                None \<Rightarrow> (Revision, obs @ [ObsSinRecepcion], doc')
              | Some fecha_recepcion_date \<Rightarrow>
                  (case fecha_limite_habiles fecha_doc vig of
                     Inl e \<Rightarrow> (Revision, obs @ [ObsErrorVigencia e], doc')
                   | Inr fecha_limite_validez \<Rightarrow>
                       if fecha_recepcion_date \<le> fecha_limite_validez
                       then (C, obs @ [ObsVigente fecha_recepcion_date fecha_limite_validez fecha_doc vig], doc')
                       else (Falta, obs @ [ObsVencido fecha_recepcion_date fecha_limite_validez fecha_doc vig], doc'))))"

text \<open>The confidence override and the signature override, in the order of the source.\<close>

definition ajuste_confianza :: "documento \<Rightarrow> estado \<times> observacion list \<Rightarrow> estado \<times> observacion list" where
  "ajuste_confianza doc eo =
     (if ocr_conf doc < 30 \<or> length (strip (texto doc)) < 40
      then (Revision, snd eo @ [ObsOCRBaja (ocr_conf doc)]) else eo)"

definition ajuste_firma :: "item \<Rightarrow> documento \<Rightarrow> estado \<times> observacion list \<Rightarrow> estado \<times> observacion list" where
  "ajuste_firma it doc eo =
     (if item_id it \<in> set [''carta_representante'', ''carta_peticionario'', ''cert_contador'', ''cert_contador'']
         \<and> \<not> firma_manuscrita doc
      then (if fst eo = C then Revision else fst eo, snd eo @ [ObsSinFirma]) else eo)"

text \<open>
  The branch on \<^verbatim>\<open>vig\<close> for a Document that met the threshold: the validity check when
  the window is truthy (not \<^verbatim>\<open>None\<close>, not 0), otherwise \<open>C\<close>.
\<close>

definition revisar_vigencia ::
  "entorno \<Rightarrow> fecha_obj \<Rightarrow> item \<Rightarrow> documento \<Rightarrow> estado \<times> observacion list \<times> documento" where
  "revisar_vigencia env fecha_recepcion_dt it doc =
     (case vigencia_dias it of
        Some vig \<Rightarrow>
          if vig \<noteq> 0 then validar_vigencia env fecha_recepcion_dt it vig doc else (C, [], doc)
      | None \<Rightarrow> (C, [], doc))"

text \<open>
  One round of the loop over the Documents. The state is (\<open>estado\<close>, \<open>archivos\<close>,
  \<open>observaciones\<close>); an evidence entry is the file name with the page numbers. The round
  also returns the Document, with its date written back when it was extracted again.
\<close>

type_synonym acumulado = "estado \<times> (string \<times> nat list) list \<times> observacion list"

definition paso_doc ::
  "entorno \<Rightarrow> fecha_obj \<Rightarrow> string list \<Rightarrow> item \<Rightarrow> acumulado \<Rightarrow> documento \<Rightarrow> acumulado \<times> documento" where
  "paso_doc env fecha_recepcion_dt archivo_inferido it acc doc =
     (if cumple_umbral archivo_inferido it doc then
        (let archivos = fst (snd acc) @ [(archivo doc, paginas doc)];
             observaciones = snd (snd acc) @ (if es_inferido archivo_inferido it then [ObsInferencia] else []);
             vig = revisar_vigencia env fecha_recepcion_dt it doc;
             doc' = snd (snd vig);
             eo = ajuste_firma it doc' (ajuste_confianza doc' (fst vig, observaciones @ fst (snd vig)))
         in ((fst eo, archivos, snd eo), doc'))
      else (acc, doc))"

fun bucle_docs ::
  "entorno \<Rightarrow> fecha_obj \<Rightarrow> string list \<Rightarrow> item \<Rightarrow> acumulado \<Rightarrow> documento list \<Rightarrow> acumulado \<times> documento list" where
  "bucle_docs env fr ai it acc [] = (acc, [])"
| "bucle_docs env fr ai it acc (doc # docs) =
     (case paso_doc env fr ai it acc doc of
        (acc', doc') \<Rightarrow>
          (case bucle_docs env fr ai it acc' docs of (acc'', docs') \<Rightarrow> (acc'', doc' # docs')))"

text \<open>
  \<^verbatim>\<open>evaluar_item\<close>: the status, the evidence (the empty list for \<^verbatim>\<open>None\<close>), the
  observations (the empty list for \<^verbatim>\<open>None\<close>) and the Documents as the call leaves them.
\<close>

definition evaluar_item ::
  "entorno \<Rightarrow> item \<Rightarrow> documento list \<Rightarrow> fecha_obj \<Rightarrow> string \<Rightarrow> string list
     \<Rightarrow> estado \<times> (string \<times> nat list) list \<times> observacion list \<times> documento list" where
  "evaluar_item env it documentos_detectados fecha_recepcion_dt peticionario_tipo archivo_inferido =
     (case puerta peticionario_tipo it of
        Some obs \<Rightarrow> (NA, [], [obs], documentos_detectados)
      | None \<Rightarrow>
          (case bucle_docs env fecha_recepcion_dt archivo_inferido it (Falta, [], []) documentos_detectados of
             ((estado, archivos, observaciones), docs') \<Rightarrow>
               if archivos = [] then ((if \<not> requerido it then NA else Falta), [], observaciones, docs')
               else (estado, archivos, observaciones, docs')))"

definition estado_de :: "estado \<times> (string \<times> nat list) list \<times> observacion list \<times> documento list \<Rightarrow> estado" where
  "estado_de r = fst r"

section \<open>The checklist catalogs\<close>

text \<open>\<^verbatim>\<open>CHECKLIST\<close>, each entry under its own name, in the order of the source; a character outside ASCII is
  written by its code point.\<close>

definition it_carta_representante :: item where
  "it_carta_representante =
     \<lparr>item_id = ''carta_representante'',
      titulo = ''Carta firmada por el Representate Legal o quien haga sus veces, indica''
          @ ''ndo de forma clara el motivo de la solicitud, relacionando el numero d''
          @ ''e planillas o tickets, per'' @ [CHR 0xED] @ ''odo o fecha de pago, valor pagado y valor a''
          @ '' devolver. En casos de apoderados se debe anexar poder debidamente aut''
          @ ''enticado ante notar'' @ [CHR 0xED] @ ''a.'',
      item_keywords =
       [''carta'',
        ''solicitud'',
        ''motivo de la solicitud'',
        ''planilla'',
        ''ticket'',
        ''valor a devolver'',
        ''apoderado'',
        ''poder autenticado''],
      requerido = True,
      vigencia_dias = None\<rparr>"

definition it_rut :: item where
  "it_rut =
     \<lparr>item_id = ''rut'',
      titulo = ''Copia de Rut vigente.'',
      item_keywords =
       [''rut'',
        ''registro '' @ [CHR 0xFA] @ ''nico tributario'',
        ''registro unico tributario'',
        ''copia rut''],
      requerido = True,
      vigencia_dias = None\<rparr>"

definition it_camara_comercio :: item where
  "it_camara_comercio =
     \<lparr>item_id = ''camara_comercio'',
      titulo = ''Certificado de Existencia y Representaci'' @ [CHR 0xF3] @ ''n Legal expedido por la C'' @ [CHR 0xE1] @ ''mar''
          @ ''a de Comercio no mayor a 90 d'' @ [CHR 0xED] @ ''as h'' @ [CHR 0xE1] @ ''biles. Para otro tipo de empleadore''
          @ ''s no obligados a registrarse en C'' @ [CHR 0xE1] @ ''mara de Comercio, documento id'' @ [CHR 0xF3] @ ''neo q''
          @ ''ue acredite la existencia y representaci'' @ [CHR 0xF3] @ ''n legal.'',
      item_keywords =
       [''c'' @ [CHR 0xE1] @ ''mara de comercio'',
        ''camara de comercio'',
        ''certificado de existencia'',
        ''certificado de existencia y representaci'' @ [CHR 0xF3] @ ''n'',
        ''certificado existencia representacion''],
      requerido = True,
      vigencia_dias = Some 90\<rparr>"

definition it_cedula_persona_natural :: item where
  "it_cedula_persona_natural =
     \<lparr>item_id = ''cedula_persona_natural'',
      titulo = ''Para empleadores personas naturales copia de la C'' @ [CHR 0xE9] @ ''dula de Ciudadan'' @ [CHR 0xED] @ ''a.'',
      item_keywords =
       [''c'' @ [CHR 0xE9] @ ''dula'',
        ''cedula'',
        ''c'' @ [CHR 0xE9] @ ''dula de ciudadan'' @ [CHR 0xED] @ ''a'',
        ''cedula de ciudadania'',
        ''cc''],
      requerido = False,
      vigencia_dias = None\<rparr>"

definition it_acta_consorcial :: item where
  "it_acta_consorcial =
     \<lparr>item_id = ''acta_consorcial'',
      titulo = ''Para Consorcios y Uniones Temporales se deber'' @ [CHR 0xE1] @ '' anexar copia del Acta C''
          @ ''onsorcial firmada por las partes, copia del Rut vigente y copia del Ce''
          @ ''rtificado de existencia y Representaci'' @ [CHR 0xF3] @ ''n Legal de cada uno de los Cons''
          @ ''orciados o Asociados para personas jur'' @ [CHR 0xED] @ ''dicas y para personas naturales''
          @ '' copia de la c'' @ [CHR 0xE9] @ ''dula de ciudadan'' @ [CHR 0xED] @ ''a.'',
      item_keywords =
       [''acta consorcial'',
        ''consorcio'',
        ''uni'' @ [CHR 0xF3] @ ''n temporal'',
        ''union temporal'',
        ''acta consorcio'',
        ''acta consorcial firmada''],
      requerido = False,
      vigencia_dias = None\<rparr>"

definition it_cert_bancaria :: item where
  "it_cert_bancaria =
     \<lparr>item_id = ''cert_bancaria'',
      titulo = ''Certificaci'' @ [CHR 0xF3] @ ''n Bancaria no mayor a 30 d'' @ [CHR 0xED] @ ''as h'' @ [CHR 0xE1] @ ''biles de expedici'' @ [CHR 0xF3] @ ''n a nomb''
          @ ''re del peticionario.'',
      item_keywords =
       [''certificaci'' @ [CHR 0xF3] @ ''n bancaria'',
        ''certificacion bancaria'',
        ''certificado bancario'',
        ''certificacion bancaria 30 dias''],
      requerido = True,
      vigencia_dias = Some 30\<rparr>"

definition it_cert_contador :: item where
  "it_cert_contador =
     \<lparr>item_id = ''cert_contador'',
      titulo = ''Certificaci'' @ [CHR 0xF3] @ ''n firmada por el Contador o Revisor Fiscal avalando el mot''
          @ ''ivo de la devoluci'' @ [CHR 0xF3] @ ''n.'',
      item_keywords =
       [''certificaci'' @ [CHR 0xF3] @ ''n firmada'',
        ''certificacion firmada'',
        ''contador'',
        ''revisor fiscal'',
        ''certificacion contador''],
      requerido = True,
      vigencia_dias = None\<rparr>"

definition it_tarjeta_profesional :: item where
  "it_tarjeta_profesional =
     \<lparr>item_id = ''tarjeta_profesional'',
      titulo = ''Copia de la tarjeta profesional del Contador o Revisor Fiscal que firm''
          @ ''a la certificaci'' @ [CHR 0xF3] @ ''n.'',
      item_keywords =
       [''tarjeta profesional'',
        ''tarjeta prof'',
        ''tarjeta profesional contador'',
        ''tarjeta profesional revisor''],
      requerido = True,
      vigencia_dias = None\<rparr>"

definition it_contrato_salario_integral :: item where
  "it_contrato_salario_integral =
     \<lparr>item_id = ''contrato_salario_integral'',
      titulo = ''Para devoluciones por error en IBC por Salario Integral anexar copia d''
          @ ''e contrato firmado por las partes.'',
      item_keywords =
       [''contrato'',
        ''salario integral'',
        ''contrato firmado'',
        ''error en IBC''],
      requerido = False,
      vigencia_dias = None\<rparr>"

definition it_recibo_pago_fic :: item where
  "it_recibo_pago_fic =
     \<lparr>item_id = ''recibo_pago_fic'',
      titulo = ''Recibo de pagos de FIC o Monetizaci'' @ [CHR 0xF3] @ ''n para Contrato de Aprendizaje.'',
      item_keywords =
       [''recibo'',
        ''fic'',
        ''monetizacion'',
        ''recibo de pagos'',
        ''recibo fic''],
      requerido = False,
      vigencia_dias = None\<rparr>"

definition it_resoluciones_multas :: item where
  "it_resoluciones_multas =
     \<lparr>item_id = ''resoluciones_multas'',
      titulo = ''Copias de las Resoluciones con la cual multaron y revocaron el pago de''
          @ '' la Multa debidamente ejecutoriadas a 31 de diciembre de 2019.'',
      item_keywords =
       [''resoluci'' @ [CHR 0xF3] @ ''n'',
        ''resolucion'',
        ''multado'',
        ''revoc'' @ [CHR 0xF3],
        ''revoco'',
        ''revocaron'',
        ''resoluciones multa'',
        ''ejecutoriada''],
      requerido = False,
      vigencia_dias = None\<rparr>"

definition CHECKLIST_misional :: "item list" where
  "CHECKLIST_misional =
     [it_carta_representante,
      it_rut,
      it_camara_comercio,
      it_cedula_persona_natural,
      it_acta_consorcial,
      it_cert_bancaria,
      it_cert_contador,
      it_tarjeta_profesional,
      it_contrato_salario_integral,
      it_recibo_pago_fic,
      it_resoluciones_multas]"

definition it_carta_peticionario :: item where
  "it_carta_peticionario =
     \<lparr>item_id = ''carta_peticionario'',
      titulo = ''Carta de solicitud firmada por el peticionario. En el caso de personas''
          @ '' jur'' @ [CHR 0xED] @ ''dicas deber'' @ [CHR 0xE1] @ '' ser firmada por el representante legal.'',
      item_keywords =
       [''carta'',
        ''solicitud'',
        ''carta de solicitud'',
        ''firmada por el peticionario'',
        ''representante legal''],
      requerido = True,
      vigencia_dias = None\<rparr>"

definition it_cedula_persona_natural_nm :: item where
  "it_cedula_persona_natural_nm =
     \<lparr>item_id = ''cedula_persona_natural_nm'',
      titulo = ''Para personas naturales copia de la c'' @ [CHR 0xE9] @ ''dula de ciudadan'' @ [CHR 0xED] @ ''a del peticiona''
          @ ''rio.'',
      item_keywords =
       [''c'' @ [CHR 0xE9] @ ''dula'',
        ''cedula'',
        ''cedula de ciudadania'',
        ''c'' @ [CHR 0xE9] @ ''dula de ciudadan'' @ [CHR 0xED] @ ''a'',
        ''cc''],
      requerido = True,
      vigencia_dias = None\<rparr>"

definition it_camara_comercio_nm :: item where
  "it_camara_comercio_nm =
     \<lparr>item_id = ''camara_comercio_nm'',
      titulo = ''Para personas jur'' @ [CHR 0xED] @ ''dicas, Certificado de Existencia y Representaci'' @ [CHR 0xF3] @ ''n Le''
          @ ''gal expedido por la C'' @ [CHR 0xE1] @ ''mara de Comercio no mayor a 90 d'' @ [CHR 0xED] @ ''as h'' @ [CHR 0xE1] @ ''biles. Par''
          @ ''a otro tipo de empleadores no obligados a registrarse en C'' @ [CHR 0xE1] @ ''mara de Com''
          @ ''ercio, documento id'' @ [CHR 0xF3] @ ''neo que acredite la existencia y representaci'' @ [CHR 0xF3] @ ''n le''
          @ ''gal.'',
      item_keywords =
       [''c'' @ [CHR 0xE1] @ ''mara de comercio'',
        ''camara de comercio'',
        ''certificado de existencia'',
        ''certificado existencia representacion''],
      requerido = True,
      vigencia_dias = Some 90\<rparr>"

definition it_rut_nm :: item where
  "it_rut_nm =
     \<lparr>item_id = ''rut_nm'',
      titulo = ''Para personas jur'' @ [CHR 0xED] @ ''dicas, copia de Rut vigente.'',
      item_keywords =
       [''rut'',
        ''copia rut'',
        ''registro '' @ [CHR 0xFA] @ ''nico tributario''],
      requerido = True,
      vigencia_dias = None\<rparr>"

definition it_cert_bancaria_nm :: item where
  "it_cert_bancaria_nm =
     \<lparr>item_id = ''cert_bancaria_nm'',
      titulo = ''Certificaci'' @ [CHR 0xF3] @ ''n Bancaria no mayor a 30 d'' @ [CHR 0xED] @ ''as h'' @ [CHR 0xE1] @ ''biles de expedici'' @ [CHR 0xF3] @ ''n a nomb''
          @ ''re del peticionario.'',
      item_keywords =
       [''certificaci'' @ [CHR 0xF3] @ ''n bancaria'',
        ''certificacion bancaria'',
        ''certificado bancario''],
      requerido = True,
      vigencia_dias = Some 30\<rparr>"

definition it_recibos_pago_nm :: item where
  "it_recibos_pago_nm =
     \<lparr>item_id = ''recibos_pago_nm'',
      titulo = ''Copia del recibo o recibos de pago legibles.'',
      item_keywords =
       [''recibo'',
        ''recibos de pago'',
        ''planilla'',
        ''comprobante''],
      requerido = True,
      vigencia_dias = None\<rparr>"

definition it_acta_terminacion_convenio :: item where
  "it_acta_terminacion_convenio =
     \<lparr>item_id = ''acta_terminacion_convenio'',
      titulo = ''Acta de terminaci'' @ [CHR 0xF3] @ ''n de liquidaci'' @ [CHR 0xF3] @ ''n del convenio.'',
      item_keywords =
       [''acta de terminaci'' @ [CHR 0xF3] @ ''n'',
        ''acta terminacion'',
        ''liquidaci'' @ [CHR 0xF3] @ ''n del convenio'',
        ''liquidacion convenio'',
        ''terminacion convenio''],
      requerido = False,
      vigencia_dias = None\<rparr>"

definition it_factura_produccion_nm :: item where
  "it_factura_produccion_nm =
     \<lparr>item_id = ''factura_produccion_nm'',
      titulo = ''Copia de la Factura Electr'' @ [CHR 0xF3] @ ''nica de venta generada por el SENA.'',
      item_keywords =
       [''factura'',
        ''factura electr'' @ [CHR 0xF3] @ ''nica'',
        ''factura electronica'',
        ''factura sena'',
        ''factura electr'' @ [CHR 0xF3] @ ''nica venta''],
      requerido = False,
      vigencia_dias = None\<rparr>"

definition it_cert_autorizacion_coordinador_nm :: item where
  "it_cert_autorizacion_coordinador_nm =
     \<lparr>item_id = ''cert_autorizacion_coordinador_nm'',
      titulo = ''Certificaci'' @ [CHR 0xF3] @ ''n de autorizaci'' @ [CHR 0xF3] @ ''n de devoluci'' @ [CHR 0xF3] @ ''n del cup'' @ [CHR 0xF3] @ ''n de pago firmada ''
          @ ''por el Coordinador del Grupo de Recaudo y Cartera.'',
      item_keywords =
       [''autorizaci'' @ [CHR 0xF3] @ ''n de devoluci'' @ [CHR 0xF3] @ ''n'',
        ''autorizacion de devolucion'',
        ''coordinador del grupo de recaudo'',
        ''coordinador'',
        ''certificaci'' @ [CHR 0xF3] @ ''n de autorizaci'' @ [CHR 0xF3] @ ''n''],
      requerido = False,
      vigencia_dias = None\<rparr>"

definition CHECKLIST_no_misional :: "item list" where
  "CHECKLIST_no_misional =
     [it_carta_peticionario,
      it_cedula_persona_natural_nm,
      it_camara_comercio_nm,
      it_rut_nm,
      it_cert_bancaria_nm,
      it_recibos_pago_nm,
      it_acta_terminacion_convenio,
      it_factura_produccion_nm,
      it_cert_autorizacion_coordinador_nm]"

definition CHECKLIST :: "string \<Rightarrow> item list" where
  "CHECKLIST tipo_devolucion =
     (if tipo_devolucion = ''misional'' then CHECKLIST_misional else CHECKLIST_no_misional)"

section \<open>Example data\<close>

text \<open>
  Concrete inputs for the witnesses and counterexamples below: an environment whose
  parser reads the one ISO string that occurs, and Documents as the page aggregation would
  deliver them. 739252 is 2025-01-01; 30 business days later is 739294 (2025-02-12).
\<close>

definition env_ejemplo :: entorno where
  "env_ejemplo =
     \<lparr>parse_date = (\<lambda>s. if s = ''2025-01-01'' then Some 739252 else None),
      extraer_fecha = (\<lambda>t b. None),
      isoformat = (\<lambda>d. [])\<rparr>"

definition doc_bancario :: documento where
  "doc_bancario =
     \<lparr>archivo = ''soportes.pdf'', ruta_archivo = ''soportes.pdf'', paginas = [3],
      texto = ''Certificacion bancaria: certificado bancario expedido por el banco'',
      ocr_conf = 90, tipo_detectado = ''cert_bancaria'', nit_o_cedula = None,
      fecha_documento = Some ''2025-01-01'', firma_manuscrita = False\<rparr>"

definition doc_bancario_borroso :: documento where
  "doc_bancario_borroso = doc_bancario\<lparr>ocr_conf := 10\<rparr>"

definition doc_rut_largo :: documento where
  "doc_rut_largo =
     \<lparr>archivo = ''soportes.pdf'', ruta_archivo = ''soportes.pdf'', paginas = [1, 2],
      texto = ''Copia RUT - Registro Unico Tributario de la empresa solicitante'',
      ocr_conf = 90, tipo_detectado = ''rut'', nit_o_cedula = None,
      fecha_documento = None, firma_manuscrita = False\<rparr>"

definition doc_rut_corto :: documento where
  "doc_rut_corto =
     \<lparr>archivo = ''soportes.pdf'', ruta_archivo = ''soportes.pdf'', paginas = [4],
      texto = ''copia rut'',
      ocr_conf = 90, tipo_detectado = ''rut'', nit_o_cedula = None,
      fecha_documento = None, firma_manuscrita = False\<rparr>"

section \<open>Page aggregation\<close>

text \<open>
  A page as \<^verbatim>\<open>extraer_info_por_pagina\<close> produces it (the image is left out). The keys
  read with \<^verbatim>\<open>or\<close> defaults, \<^verbatim>\<open>texto\<close>, \<^verbatim>\<open>ocr_conf\<close> and \<^verbatim>\<open>tipo_detectado\<close>, may
  hold \<^verbatim>\<open>None\<close>.
\<close>

record pagina_info =
  p_archivo :: string
  p_ruta_archivo :: string
  p_pagina :: nat
  p_texto :: "string option"
  p_ocr_conf :: "real option"
  p_tipo_detectado :: "string option"
  p_nit_o_cedula :: "string option"
  p_fecha_documento :: "string option"
  p_firma_manuscrita :: bool

text \<open>Truthiness of an optional string: \<^verbatim>\<open>None\<close> and the empty string are falsy.\<close>

definition truthy :: "string option \<Rightarrow> bool" where
  "truthy x = (case x of None \<Rightarrow> False | Some s \<Rightarrow> s \<noteq> [])"

text \<open>\<^verbatim>\<open>p.get("tipo_detectado") or "otro"\<close>, \<^verbatim>\<open>p.get("ocr_conf") or 0.0\<close> and
  \<^verbatim>\<open>p.get("texto") or ""\<close>.\<close>

definition tipo_de :: "pagina_info \<Rightarrow> string" where
  "tipo_de p = (case p_tipo_detectado p of None \<Rightarrow> ''otro'' | Some t \<Rightarrow> if t = [] then ''otro'' else t)"

definition conf_de :: "pagina_info \<Rightarrow> real" where
  "conf_de p = (case p_ocr_conf p of None \<Rightarrow> 0 | Some c \<Rightarrow> c)"

definition texto_de :: "pagina_info \<Rightarrow> string" where
  "texto_de p = (case p_texto p of None \<Rightarrow> [] | Some t \<Rightarrow> t)"

text \<open>The dictionary \<^verbatim>\<open>current\<close>: the Document being built, with the list of the
  confidences of its pages.\<close>

record actual =
  a_archivo :: string
  a_ruta_archivo :: string
  a_paginas :: "nat list"
  a_texto :: string
  a_ocr_confs :: "real list"
  a_tipo_detectado :: string
  a_nit_o_cedula :: "string option"
  a_fecha_documento :: "string option"
  a_firma_manuscrita :: bool

definition nuevo_actual :: "pagina_info \<Rightarrow> actual" where
  "nuevo_actual p =
     \<lparr>a_archivo = p_archivo p, a_ruta_archivo = p_ruta_archivo p, a_paginas = [p_pagina p],
      a_texto = texto_de p, a_ocr_confs = [conf_de p], a_tipo_detectado = tipo_de p,
      a_nit_o_cedula = p_nit_o_cedula p, a_fecha_documento = p_fecha_documento p,
      a_firma_manuscrita = p_firma_manuscrita p\<rparr>"

definition extender_actual :: "actual \<Rightarrow> pagina_info \<Rightarrow> actual" where
  "extender_actual current p =
     current\<lparr>a_paginas := a_paginas current @ [p_pagina p],
             a_texto := a_texto current @ [CHR 0x0A, CHR 0x0A] @ texto_de p,
             a_ocr_confs := a_ocr_confs current @ [conf_de p],
             a_nit_o_cedula :=
               (if \<not> truthy (a_nit_o_cedula current) \<and> truthy (p_nit_o_cedula p)
                then p_nit_o_cedula p else a_nit_o_cedula current),
             a_fecha_documento :=
               (if \<not> truthy (a_fecha_documento current) \<and> truthy (p_fecha_documento p)
                then p_fecha_documento p else a_fecha_documento current),
             a_firma_manuscrita := (a_firma_manuscrita current \<or> p_firma_manuscrita p)\<rparr>"

text \<open>
  \<^verbatim>\<open>float(np.mean(confs)) if confs else 0.0\<close>. \<^verbatim>\<open>np.mean\<close> belongs to numpy, not to
  the program: the aggregation takes it as the parameter \<open>np_mean\<close>, the function that
  gives, for a list of confidences, the float64 that numpy returns as their mean. A
  float64 is represented by the real number it stands for (a confidence is a percentage;
  the infinities and NaN do not arise).
\<close>

definition media :: "(real list \<Rightarrow> real) \<Rightarrow> real list \<Rightarrow> real" where
  "media np_mean confs = (if confs = [] then 0 else np_mean confs)"

definition emitir :: "(real list \<Rightarrow> real) \<Rightarrow> actual \<Rightarrow> documento" where
  "emitir np_mean current =
     \<lparr>archivo = a_archivo current, ruta_archivo = a_ruta_archivo current,
      paginas = a_paginas current, texto = a_texto current,
      ocr_conf = media np_mean (a_ocr_confs current), tipo_detectado = a_tipo_detectado current,
      nit_o_cedula = a_nit_o_cedula current, fecha_documento = a_fecha_documento current,
      firma_manuscrita = a_firma_manuscrita current\<rparr>"

text \<open>The loop over the pages, from the state (\<open>documentos\<close>, \<open>current\<close>), with the
  final append after it.\<close>

fun agrupar_loop ::
  "(real list \<Rightarrow> real) \<Rightarrow> documento list \<Rightarrow> actual option \<Rightarrow> pagina_info list \<Rightarrow> documento list" where
  "agrupar_loop np_mean documentos current [] =
     (case current of None \<Rightarrow> documentos | Some c \<Rightarrow> documentos @ [emitir np_mean c])"
| "agrupar_loop np_mean documentos current (p # ps) =
     (case current of
        None \<Rightarrow> agrupar_loop np_mean documentos (Some (nuevo_actual p)) ps
      | Some c \<Rightarrow>
          if tipo_de p = a_tipo_detectado c
          then agrupar_loop np_mean documentos (Some (extender_actual c p)) ps
          else agrupar_loop np_mean (documentos @ [emitir np_mean c]) (Some (nuevo_actual p)) ps)"

definition agrupar_paginas_en_documentos ::
  "(real list \<Rightarrow> real) \<Rightarrow> pagina_info list \<Rightarrow> documento list" where
  "agrupar_paginas_en_documentos np_mean paginas_info =
     (if paginas_info = [] then [] else agrupar_loop np_mean [] None paginas_info)"

text \<open>
  What it means for a Document to come from a run of pages: the run is not empty, the
  Document lists the run's page numbers in order, every page of the run has the
  Document's type, and the Document's confidence is what \<^verbatim>\<open>np.mean\<close> returns for the
  list of the pages' confidences.
\<close>

definition doc_de_corrida :: "(real list \<Rightarrow> real) \<Rightarrow> documento \<Rightarrow> pagina_info list \<Rightarrow> bool" where
  "doc_de_corrida np_mean d r =
     (r \<noteq> [] \<and> paginas d = map p_pagina r \<and> (\<forall>p \<in> set r. tipo_de p = tipo_detectado d)
      \<and> ocr_conf d = np_mean (map conf_de r))"

text \<open>The state \<open>current\<close> stands for the run \<open>r\<close> of pages read into it.\<close>

definition rep :: "actual \<Rightarrow> pagina_info list \<Rightarrow> bool" where
  "rep c r =
     (r \<noteq> [] \<and> a_paginas c = map p_pagina r \<and> (\<forall>p \<in> set r. tipo_de p = a_tipo_detectado c)
      \<and> a_ocr_confs c = map conf_de r)"

subsection \<open>The mean in float64 arithmetic\<close>

text \<open>
  Rounding to float64: to the nearest value with a 53-bit significand, a tie going to the
  even significand. The value is measured in units of \<open>1 / 2 ^ 1074\<close>, the smallest
  positive float64: up to \<open>2 ^ 53\<close> units the float64 values are the whole numbers of
  units (the subnormal numbers and the first binade), and a value whose whole part has
  \<open>b > 53\<close> bits is rounded to a multiple of \<open>2 ^ (b - 53)\<close> units. Overflow to
  infinity, from \<open>2 ^ 1024\<close> on, is not represented: sums of percentages stay far below it.
\<close>

definition redondear_par :: "real \<Rightarrow> int" where
  "redondear_par q =
     (let n = \<lfloor>q\<rfloor>; r = q - of_int n
      in if r < 1 / 2 then n else if 1 / 2 < r then n + 1 else if even n then n else n + 1)"

definition cuanto :: "real \<Rightarrow> real" where
  "cuanto q = (let b = bitlen \<lfloor>q\<rfloor> in if b \<le> 53 then 1 else 2 ^ nat (b - 53))"

definition redondeo64 :: "real \<Rightarrow> real" where
  "redondeo64 x =
     (let q = \<bar>x\<bar> * 2 ^ 1074; u = cuanto q
      in sgn x * (of_int (redondear_par (q / u)) * u / 2 ^ 1074))"

definition suma_f64 :: "real \<Rightarrow> real \<Rightarrow> real" where
  "suma_f64 a b = redondeo64 (a + b)"

text \<open>
  The sum of a float64 array the way numpy's \<^verbatim>\<open>add.reduce\<close> takes it (pairwise
  summation): fewer than eight elements are added from left to right; up to 128 elements
  are added into eight running sums, element \<open>i\<close> into sum \<open>i mod 8\<close>, which are then
  combined as a balanced tree, and the elements left over after the last full block of
  eight are added one by one; a longer array is split in two at a multiple of eight and
  the sums of the halves are added.
\<close>

function acumular8 :: "real list \<Rightarrow> real list \<Rightarrow> real list" where
  "acumular8 r a =
     (if length a < 8 then r else acumular8 (map2 suma_f64 r (take 8 a)) (drop 8 a))"
  by pat_completeness auto
termination
  by (relation "measure (\<lambda>(r, a). length a)") auto

declare acumular8.simps [simp del]

function pairwise_sum :: "real list \<Rightarrow> real" where
  "pairwise_sum a =
     (let n = length a in
      if n < 8 then foldl suma_f64 0 a
      else if n \<le> 128 then
        (let r = acumular8 (take 8 a) (drop 8 (take (n - n mod 8) a));
             res = suma_f64 (suma_f64 (suma_f64 (r ! 0) (r ! 1)) (suma_f64 (r ! 2) (r ! 3)))
                            (suma_f64 (suma_f64 (r ! 4) (r ! 5)) (suma_f64 (r ! 6) (r ! 7)))
         in foldl suma_f64 res (drop (n - n mod 8) a))
      else
        (let n2 = n div 2 - (n div 2) mod 8
         in suma_f64 (pairwise_sum (take n2 a)) (pairwise_sum (drop n2 a))))"
  by pat_completeness auto
termination
  by (relation "measure length") auto

declare pairwise_sum.simps [simp del]

text \<open>
  \<^verbatim>\<open>np.mean\<close> of a list that is not empty: the elements as a float64 array (a Python
  float is a float64 already and stays as it is), their sum, and one division by the
  number of elements.
\<close>

definition np_mean_float64 :: "real list \<Rightarrow> real" where
  "np_mean_float64 xs = redondeo64 (pairwise_sum (map redondeo64 xs) / real (length xs))"

subsection \<open>Example pages\<close>

text \<open>Three pages classified letter, letter, tax registry.\<close>

definition paginas_ejemplo :: "pagina_info list" where
  "paginas_ejemplo =
     [\<lparr>p_archivo = ''soportes.pdf'', p_ruta_archivo = ''soportes.pdf'', p_pagina = 1,
       p_texto = Some ''carta de solicitud'', p_ocr_conf = Some 80, p_tipo_detectado = Some ''carta'',
       p_nit_o_cedula = None, p_fecha_documento = None, p_firma_manuscrita = False\<rparr>,
      \<lparr>p_archivo = ''soportes.pdf'', p_ruta_archivo = ''soportes.pdf'', p_pagina = 2,
       p_texto = Some ''atentamente'', p_ocr_conf = Some 70, p_tipo_detectado = Some ''carta'',
       p_nit_o_cedula = None, p_fecha_documento = None, p_firma_manuscrita = True\<rparr>,
      \<lparr>p_archivo = ''soportes.pdf'', p_ruta_archivo = ''soportes.pdf'', p_pagina = 3,
       p_texto = Some ''registro unico tributario'', p_ocr_conf = Some 90, p_tipo_detectado = Some ''rut'',
       p_nit_o_cedula = Some ''900123456'', p_fecha_documento = None, p_firma_manuscrita = False\<rparr>]"

text \<open>Three pages of one letter, with the confidences 85.5, 90.25 and 70.0.\<close>

definition paginas_tres :: "pagina_info list" where
  "paginas_tres =
     [\<lparr>p_archivo = ''carta.pdf'', p_ruta_archivo = ''carta.pdf'', p_pagina = 1,
       p_texto = Some ''carta de solicitud'', p_ocr_conf = Some (171 / 2), p_tipo_detectado = Some ''carta'',
       p_nit_o_cedula = None, p_fecha_documento = None, p_firma_manuscrita = False\<rparr>,
      \<lparr>p_archivo = ''carta.pdf'', p_ruta_archivo = ''carta.pdf'', p_pagina = 2,
       p_texto = Some ''segunda hoja'', p_ocr_conf = Some (361 / 4), p_tipo_detectado = Some ''carta'',
       p_nit_o_cedula = None, p_fecha_documento = None, p_firma_manuscrita = False\<rparr>,
      \<lparr>p_archivo = ''carta.pdf'', p_ruta_archivo = ''carta.pdf'', p_pagina = 3,
       p_texto = Some ''atentamente'', p_ocr_conf = Some 70, p_tipo_detectado = Some ''carta'',
       p_nit_o_cedula = None, p_fecha_documento = None, p_firma_manuscrita = True\<rparr>]"

section \<open>Choosing the date of a document\<close>

text \<open>
  The last step of \<^verbatim>\<open>extraer_todas_fechas_texto\<close>,
  \<^verbatim>\<open>sorted(list(set(fechas_encontradas)))\<close>: the candidates without duplicates, ascending.
\<close>

definition fechas_unicas :: "date list \<Rightarrow> date list" where
  "fechas_unicas fechas_encontradas = sort (remdups fechas_encontradas)"

text \<open>
  The test \<^verbatim>\<open>(hoy - timedelta(days=365*5)) <= f <= hoy + timedelta(days=365)\<close> of the list
  comprehension, for one candidate: the lower end is computed first and the upper end only
  when the first comparison holds; either computation raises outside the range of dates.
\<close>

definition en_ventana :: "date \<Rightarrow> date \<Rightarrow> error + bool" where
  "en_ventana hoy f =
     (case add_days hoy (- (365 * 5)) of
        Inl e \<Rightarrow> Inl e
      | Inr desde \<Rightarrow>
          if desde \<le> f then
            (case add_days hoy 365 of Inl e \<Rightarrow> Inl e | Inr hasta \<Rightarrow> Inr (f \<le> hasta))
          else Inr False)"

fun filtrar_validas :: "date \<Rightarrow> date list \<Rightarrow> error + date list" where
  "filtrar_validas hoy [] = Inr []"
| "filtrar_validas hoy (f # fs) =
     (case en_ventana hoy f of
        Inl e \<Rightarrow> Inl e
      | Inr b \<Rightarrow>
          (case filtrar_validas hoy fs of
             Inl e \<Rightarrow> Inl e
           | Inr vs \<Rightarrow> Inr (if b then f # vs else vs)))"

text \<open>\<^verbatim>\<open>max(xs)\<close> of a list: \<^verbatim>\<open>ValueError\<close> on the empty list.\<close>

definition py_max :: "date list \<Rightarrow> error + date" where
  "py_max xs = (case xs of [] \<Rightarrow> Inl ValueError | x # ys \<Rightarrow> Inr (fold max ys x))"

text \<open>The body of \<^verbatim>\<open>extraer_fecha_mejorada\<close> after the candidates are in \<open>fechas\<close>; \<open>hoy\<close>
  is \<^verbatim>\<open>datetime.now().date()\<close>.\<close>

definition seleccionar_fecha :: "date \<Rightarrow> date list \<Rightarrow> error + date option" where
  "seleccionar_fecha hoy fechas =
     (if fechas = [] then Inr None
      else if length fechas > 1 then
        (case filtrar_validas hoy fechas of
           Inl e \<Rightarrow> Inl e
         | Inr fechas_validas \<Rightarrow>
             (case py_max (if fechas_validas = [] then fechas else fechas_validas) of
                Inl e \<Rightarrow> Inl e
              | Inr fecha_seleccionada \<Rightarrow> Inr (Some fecha_seleccionada)))
      else Inr (Some (hd fechas)))"

text \<open>
  \<^verbatim>\<open>extraer_fecha_mejorada\<close>. The four extraction passes of
  \<^verbatim>\<open>extraer_todas_fechas_texto\<close> (two of them call the external parser) are the parameter
  \<open>pasadas\<close>, which gives the list \<^verbatim>\<open>fechas_encontradas\<close> for a text and the
  \<^verbatim>\<open>contexto_bancario\<close> flag.
\<close>

definition extraer_fecha_mejorada ::
  "(string \<Rightarrow> bool \<Rightarrow> date list) \<Rightarrow> date \<Rightarrow> string \<Rightarrow> bool \<Rightarrow> error + date option" where
  "extraer_fecha_mejorada pasadas hoy txt contexto_bancario =
     seleccionar_fecha hoy (fechas_unicas (pasadas txt contexto_bancario))"

text \<open>
  The window as the specification words it, in calendar years. It is kept apart from
  the window of the code and only serves to compare the two: for the clock at the date
  \<open>(y, m, d)\<close> it runs from the same day of the month five years earlier to the same
  day one year later (a 29th of February falls back on the 28th in a year without one).
\<close>

definition mismo_dia :: "int \<Rightarrow> int \<Rightarrow> int \<Rightarrow> date" where
  "mismo_dia y m d = ymd2ord y m (min d (days_in_month y m))"

definition en_ventana_anios :: "int \<Rightarrow> int \<Rightarrow> int \<Rightarrow> date \<Rightarrow> bool" where
  "en_ventana_anios y m d f = (mismo_dia (y - 5) m d \<le> f \<and> f \<le> mismo_dia (y + 1) m d)"

definition seleccion_ventana_anios :: "int \<Rightarrow> int \<Rightarrow> int \<Rightarrow> date list \<Rightarrow> date option" where
  "seleccion_ventana_anios y m d candidatas =
     (if candidatas = [] then None
      else if filter (en_ventana_anios y m d) candidatas \<noteq> []
      then Some (Max (set (filter (en_ventana_anios y m d) candidatas)))
      else Some (Max (set candidatas)))"

text \<open>Extraction passes that find the two dates 2022-01-19 and 2028-01-20 in any text.\<close>

definition pasadas_dos :: "string \<Rightarrow> bool \<Rightarrow> date list" where
  "pasadas_dos t contexto_bancario = [ymd2ord 2022 1 19, ymd2ord 2028 1 20]"

section \<open>Regular expressions\<close>

text \<open>
  The patterns of the program, as far as they are matched by search, are built from:
  a character class, a literal, a literal under \<^verbatim>\<open>re.IGNORECASE\<close>, sequence, alternation,
  a greedy repetition \<^verbatim>\<open>{lo,hi}\<close> of a character class (\<^verbatim>\<open>*\<close>, \<^verbatim>\<open>+\<close>, \<^verbatim>\<open>?\<close> are
  instances), the lazy \<^verbatim>\<open>*?\<close> of a character class, and the word boundary \<^verbatim>\<open>\b\<close>.
  A position in the subject is the character before it (if any) and the text after it.
  \<open>re_match r p\<close> lists the positions at which a match of \<open>r\<close> starting at \<open>p\<close> can
  end, in the order in which a backtracking matcher tries them: the head is the match
  Python reports.
\<close>

datatype re =
    Cls "char \<Rightarrow> bool"
  | Lit string
  | LitI string
  | Seq re re
  | Alt re re
  | Rep nat "nat option" "char \<Rightarrow> bool"
  | RepLazy "char \<Rightarrow> bool"
  | Bnd

type_synonym pos = "char option \<times> string"

definition word_opt :: "char option \<Rightarrow> bool" where
  "word_opt x = (case x of None \<Rightarrow> False | Some c \<Rightarrow> is_word c)"

definition primero :: "string \<Rightarrow> char option" where
  "primero s = (case s of [] \<Rightarrow> None | c # cs \<Rightarrow> Some c)"

text \<open>The position \<open>k\<close> characters further on (\<open>k\<close> at most the length of the text).\<close>

definition avanzar :: "nat \<Rightarrow> pos \<Rightarrow> pos" where
  "avanzar k p = (if k = 0 then p else (Some (snd p ! (k - 1)), drop k (snd p)))"

fun re_match :: "re \<Rightarrow> pos \<Rightarrow> pos list" where
  "re_match (Cls P) p =
     (case snd p of [] \<Rightarrow> [] | c # cs \<Rightarrow> if P c then [(Some c, cs)] else [])"
| "re_match (Lit w) p = (if take (length w) (snd p) = w then [avanzar (length w) p] else [])"
| "re_match (LitI w) p =
     (if lower (take (length w) (snd p)) = lower w then [avanzar (length w) p] else [])"
| "re_match (Seq a b) p = concat (map (re_match b) (re_match a p))"
| "re_match (Alt a b) p = re_match a p @ re_match b p"
| "re_match (Rep lo hi P) p =
     (let n = length (takeWhile P (snd p));
          top = (case hi of None \<Rightarrow> n | Some h \<Rightarrow> min h n)
      in map (\<lambda>k. avanzar k p) (rev [lo..<Suc top]))"
| "re_match (RepLazy P) p =
     (let n = length (takeWhile P (snd p)) in map (\<lambda>k. avanzar k p) [0..<Suc n])"
| "re_match Bnd p = (if word_opt (fst p) \<noteq> word_opt (primero (snd p)) then [p] else [])"

text \<open>
  \<^verbatim>\<open>re.sub(r, repl, s)\<close> for a replacement without group references: scan from the
  left; where the pattern matches, write the replacement and go on after the match;
  elsewhere copy one character. (No pattern of the program matches the empty string; an
  empty match writes the replacement and copies the next character, as Python does.)
\<close>

function re_sub_desde :: "re \<Rightarrow> string \<Rightarrow> char option \<Rightarrow> string \<Rightarrow> string" where
  "re_sub_desde r repl prev s =
     (case re_match r (prev, s) of
        [] \<Rightarrow> (case s of [] \<Rightarrow> [] | c # cs \<Rightarrow> c # re_sub_desde r repl (Some c) cs)
      | p # ps \<Rightarrow>
          (if length s - length (snd p) = 0
           then repl @ (case s of [] \<Rightarrow> [] | c # cs \<Rightarrow> c # re_sub_desde r repl (Some c) cs)
           else repl @ re_sub_desde r repl (Some (s ! (length s - length (snd p) - 1)))
                         (drop (length s - length (snd p)) s)))"
  by pat_completeness auto
termination
  by (relation "measure (\<lambda>(r, repl, prev, s). length s)") auto

declare re_sub_desde.simps [simp del]

definition re_sub :: "re \<Rightarrow> string \<Rightarrow> string \<Rightarrow> string" where
  "re_sub r repl s = re_sub_desde r repl None s"

text \<open>A character of a set given as a string, and the classes the patterns use.\<close>

definition uno_de :: "string \<Rightarrow> char \<Rightarrow> bool" where
  "uno_de cs c = (c \<in> set cs)"

definition no_salto :: "char \<Rightarrow> bool" where
  "no_salto c = (c \<noteq> CHR 0x0A)"

section \<open>Cleaning a text and the numeric date pass\<close>

text \<open>
  \<^verbatim>\<open>re.sub\<close> of a pattern that matches one character under a condition on its two
  neighbours (\<^verbatim>\<open>\bl\b\<close>, \<^verbatim>\<open>(?<=\d)O(?=\d)\<close>): every character whose neighbours in
  the subject satisfy the condition is replaced. The neighbours are those of the subject,
  not of the result.
\<close>

fun sub_contexto :: "(char option \<Rightarrow> char \<Rightarrow> char option \<Rightarrow> bool) \<Rightarrow> char \<Rightarrow> char option \<Rightarrow> string \<Rightarrow> string" where
  "sub_contexto P r prev [] = []"
| "sub_contexto P r prev [c] = [if P prev c None then r else c]"
| "sub_contexto P r prev (c # n # cs) =
     (if P prev c (Some n) then r else c) # sub_contexto P r (Some c) (n # cs)"

definition digit_opt :: "char option \<Rightarrow> bool" where
  "digit_opt x = (case x of None \<Rightarrow> False | Some c \<Rightarrow> is_digit c)"

definition ele_aislada :: "char option \<Rightarrow> char \<Rightarrow> char option \<Rightarrow> bool" where
  "ele_aislada prev c sig = (c = CHR ''l'' \<and> \<not> word_opt prev \<and> \<not> word_opt sig)"

definition entre_digitos :: "char \<Rightarrow> char option \<Rightarrow> char \<Rightarrow> char option \<Rightarrow> bool" where
  "entre_digitos x prev c sig = (c = x \<and> digit_opt prev \<and> digit_opt sig)"

definition es_bracket :: "char \<Rightarrow> bool" where
  "es_bracket c = (c \<in> set ''[]{}()'')"

definition limpiar_texto_fecha :: "string \<Rightarrow> string" where
  "limpiar_texto_fecha txt =
     (if txt = [] then []
      else
        (let t1 = map (\<lambda>c. if c = CHR ''|'' then CHR ''/'' else c) txt;
             t2 = sub_contexto ele_aislada (CHR ''1'') None t1;
             t3 = sub_contexto (entre_digitos (CHR ''O'')) (CHR ''0'') None t2;
             t4 = sub_contexto (entre_digitos (CHR ''o'')) (CHR ''0'') None t3
         in filter (\<lambda>c. \<not> es_bracket c) t4))"

text \<open>
  \<^verbatim>\<open>RE_DATE_NUMERIC\<close>. Its two alternatives are matched group by group, so that the
  groups can be read off: the text of a group is what lies between two positions.
\<close>

definition es_separador :: "char \<Rightarrow> bool" where
  "es_separador c = (c \<in> set [CHR ''/'', CHR ''-'', CHR ''.'', CHR 0x5C] \<or> is_space c)"

definition entre :: "pos \<Rightarrow> pos \<Rightarrow> string" where
  "entre p q = take (length (snd p) - length (snd q)) (snd p)"

definition date_numeric_alt :: "nat \<Rightarrow> nat \<Rightarrow> nat \<Rightarrow> nat \<Rightarrow> pos \<Rightarrow> (string \<times> string \<times> string \<times> pos) list" where
  "date_numeric_alt lo1 hi1 lo3 hi3 p =
     [(entre p0 p1, entre p2 p3, entre p4 p5, p6).
        p0 \<leftarrow> re_match Bnd p,
        p1 \<leftarrow> re_match (Rep lo1 (Some hi1) is_digit) p0,
        p2 \<leftarrow> re_match (Rep 1 None es_separador) p1,
        p3 \<leftarrow> re_match (Rep 1 (Some 2) is_digit) p2,
        p4 \<leftarrow> re_match (Rep 1 None es_separador) p3,
        p5 \<leftarrow> re_match (Rep lo3 (Some hi3) is_digit) p4,
        p6 \<leftarrow> re_match Bnd p5]"

text \<open>A match: the six groups (\<open>None\<close> for a group of the alternative that did not
  take part) and the position after the match.\<close>

definition RE_DATE_NUMERIC :: "pos \<Rightarrow> (string option list \<times> pos) option" where
  "RE_DATE_NUMERIC p =
     (case date_numeric_alt 1 2 2 4 p of
        (g1, g2, g3, q) # _ \<Rightarrow> Some ([Some g1, Some g2, Some g3, None, None, None], q)
      | [] \<Rightarrow>
          (case date_numeric_alt 2 4 1 2 p of
             (g4, g5, g6, q) # _ \<Rightarrow> Some ([None, None, None, Some g4, Some g5, Some g6], q)
           | [] \<Rightarrow> None))"

text \<open>\<^verbatim>\<open>RE_DATE_NUMERIC.finditer\<close>: the matches from left to right, without overlap
  (a match of this pattern is never empty).\<close>

function finditer_desde :: "char option \<Rightarrow> string \<Rightarrow> string option list list" where
  "finditer_desde prev s =
     (case RE_DATE_NUMERIC (prev, s) of
        None \<Rightarrow> (case s of [] \<Rightarrow> [] | c # cs \<Rightarrow> finditer_desde (Some c) cs)
      | Some (gs, q) \<Rightarrow>
          (if length s - length (snd q) = 0
           then gs # (case s of [] \<Rightarrow> [] | c # cs \<Rightarrow> finditer_desde (Some c) cs)
           else gs # finditer_desde (Some (s ! (length s - length (snd q) - 1)))
                        (drop (length s - length (snd q)) s)))"
  by pat_completeness auto
termination
  by (relation "measure (\<lambda>(prev, s). length s)") auto

declare finditer_desde.simps [simp del]

text \<open>\<^verbatim>\<open>int(g)\<close> of a group of decimal digits.\<close>

definition py_int :: "string \<Rightarrow> int" where
  "py_int g = foldl (\<lambda>a c. 10 * a + (cp c - 48)) 0 g"

text \<open>
  The body of the \<^verbatim>\<open>try\<close> for three groups: the dates appended, and whether the loop
  over \<^verbatim>\<open>i\<close> is left by \<^verbatim>\<open>break\<close> (\<open>True\<close>) or goes on after the \<^verbatim>\<open>ValueError\<close>
  of a date that does not exist (\<open>False\<close>).
\<close>

definition leer_grupos :: "string \<Rightarrow> string \<Rightarrow> string \<Rightarrow> date list \<times> bool" where
  "leer_grupos g1 g2 g3 =
     (let num1 = py_int g1;
          num2 = py_int g2;
          num3 = (if py_int g3 < 100 then py_int g3 + (if py_int g3 < 50 then 2000 else 1900)
                  else py_int g3)
      in if 1 \<le> num1 \<and> num1 \<le> 31 \<and> 1 \<le> num2 \<and> num2 \<le> 12 \<and> 1900 \<le> num3 \<and> num3 \<le> 2100 then
           (case mk_date num3 num2 num1 of Inr fecha \<Rightarrow> ([fecha], True) | Inl e \<Rightarrow> ([], False))
         else if 1900 \<le> num1 \<and> num1 \<le> 2100 \<and> 1 \<le> num2 \<and> num2 \<le> 12 \<and> 1 \<le> num3 \<and> num3 \<le> 31 then
           (case mk_date num1 num2 num3 of Inr fecha \<Rightarrow> ([fecha], True) | Inl e \<Rightarrow> ([], False))
         else ([], True))"

text \<open>The loop \<^verbatim>\<open>for i in range(1, 7, 3)\<close> over the groups of one match.\<close>

fun fechas_de_grupos :: "string option list \<Rightarrow> date list" where
  "fechas_de_grupos (Some g1 # Some g2 # Some g3 # resto) =
     (if g1 \<noteq> [] \<and> g2 \<noteq> [] \<and> g3 \<noteq> [] then
        (case leer_grupos g1 g2 g3 of
           (fs, True) \<Rightarrow> fs
         | (fs, False) \<Rightarrow> fs @ fechas_de_grupos resto)
      else fechas_de_grupos resto)"
| "fechas_de_grupos (a # b # c # resto) = fechas_de_grupos resto"
| "fechas_de_grupos gs = []"

text \<open>The third strategy of \<^verbatim>\<open>extraer_todas_fechas_texto\<close>: the candidates of the pure
  numeric pass over the cleaned text.\<close>

definition pasada_numerica :: "string \<Rightarrow> date list" where
  "pasada_numerica txt =
     concat (map fechas_de_grupos (finditer_desde None (limpiar_texto_fecha txt)))"

section \<open>Document classification\<close>

text \<open>\<^verbatim>\<open>DOC_KEYWORDS\<close>: a dictionary, kept as the list of its entries in insertion order,
  which is the order Python iterates it in.\<close>

definition DOC_KEYWORDS :: "(string \<times> string list) list" where
  "DOC_KEYWORDS =
     [(''carta'',
        [''solicitud'',
         ''carta'',
         ''solicita devoluci'' @ [CHR 0xF3] @ ''n'',
         ''motivo de la solicitud'',
         ''carta de solicitud'',
         ''carta de peticion'',
         ''representante legal'',
         ''atentamente'',
         ''cordiales saludos'',
         ''respetados se'' @ [CHR 0xF1] @ ''ores'']),
      (''rut'',
        [''rut'',
         ''registro '' @ [CHR 0xFA] @ ''nico tributario'',
         ''registro unico tributario'',
         ''numero de identificacion tributaria'',
         ''n'' @ [CHR 0xFA] @ ''mero de identificaci'' @ [CHR 0xF3] @ ''n tributaria'']),
      (''camara_comercio'',
        [''c'' @ [CHR 0xE1] @ ''mara de comercio'',
         ''camara de comercio'',
         ''certificado de existencia'',
         ''certificado de existencia y representacion'',
         ''certificado de representacion legal'',
         ''matricula mercantil'']),
      (''cert_bancaria'',
        [''certificaci'' @ [CHR 0xF3] @ ''n bancaria'',
         ''certificacion bancaria'',
         ''certificado bancario'',
         ''certificaci'' @ [CHR 0xF3] @ ''n de cuenta'',
         ''certificacion de cuenta'',
         ''saldo bancario'',
         ''certificado de saldo'',
         ''entidad financiera'',
         ''numero de cuenta'',
         ''cuenta corriente'',
         ''cuenta de ahorros'',
         ''banco'',
         ''bancaria'',
         ''bancario'']),
      (''recibo_pago'',
        [''recibo'',
         ''recibos de pago'',
         ''planilla'',
         ''comprobante de pago'',
         ''comprobante de transaccion'',
         ''voucher de pago'',
         ''pago de planilla'',
         ''transaccion financiera'',
         ''numero de recibo'']),
      (''resolucion'',
        [''resoluci'' @ [CHR 0xF3] @ ''n'',
         ''resolucion'',
         ''revoc'' @ [CHR 0xF3],
         ''revoco'',
         ''revocado'',
         ''multado'',
         ''resolucion administrativa'',
         ''acto administrativo'',
         ''ejecutoriada'']),
      (''tarjeta_profesional'',
        [''tarjeta profesional'',
         ''tarjeta prof'',
         ''tarjeta del contador'',
         ''tarjeta del revisor fiscal'',
         ''matricula profesional'']),
      (''acta_consorcial'',
        [''acta consorcial'',
         ''consorcio'',
         ''uni'' @ [CHR 0xF3] @ ''n temporal'',
         ''union temporal'',
         ''acta de consorcio'',
         ''contrato de union temporal'',
         ''joint venture'']),
      (''contrato'',
        [''contrato'',
         ''salario integral'',
         ''contrato firmado'',
         ''contrato de trabajo'',
         ''contrato laboral'',
         ''clausulas contractuales''])]"

text \<open>
  The normalisation of \<^verbatim>\<open>texto_completo\<close>: lower case, the five accented vowels replaced,
  every character that is neither \<^verbatim>\<open>\w\<close> nor \<^verbatim>\<open>\s\<close> replaced by a blank, runs of
  whitespace collapsed to one blank (\<^verbatim>\<open>re.sub(r'\s+', ' ', s)\<close>), and \<^verbatim>\<open>strip\<close>.
\<close>

definition sin_tildes :: "string \<Rightarrow> string" where
  "sin_tildes s =
     map (\<lambda>c. if c = CHR 0xE1 then CHR ''a'' else if c = CHR 0xE9 then CHR ''e''
              else if c = CHR 0xED then CHR ''i'' else if c = CHR 0xF3 then CHR ''o''
              else if c = CHR 0xFA then CHR ''u'' else c) s"

definition sin_puntuacion :: "string \<Rightarrow> string" where
  "sin_puntuacion s = map (\<lambda>c. if is_word c \<or> is_space c then c else CHR '' '') s"

fun colapsar :: "bool \<Rightarrow> string \<Rightarrow> string" where
  "colapsar en_blanco [] = []"
| "colapsar en_blanco (c # cs) =
     (if is_space c then (if en_blanco then colapsar True cs else CHR '' '' # colapsar True cs)
      else c # colapsar False cs)"

definition colapsar_espacios :: "string \<Rightarrow> string" where
  "colapsar_espacios s = colapsar False s"

definition normalizar_completo :: "string \<Rightarrow> string" where
  "normalizar_completo s = strip (colapsar_espacios (sin_puntuacion (sin_tildes (lower s))))"

text \<open>\<^verbatim>\<open>s.split()\<close>: the maximal runs of characters that are not whitespace.\<close>

fun split_desde :: "string \<Rightarrow> string \<Rightarrow> string list" where
  "split_desde palabra [] = (if palabra = [] then [] else [palabra])"
| "split_desde palabra (c # cs) =
     (if is_space c then (if palabra = [] then split_desde [] cs else palabra # split_desde [] cs)
      else split_desde (palabra @ [c]) cs)"

definition split :: "string \<Rightarrow> string list" where
  "split s = split_desde [] s"

definition keyword_normalized :: "string \<Rightarrow> string" where
  "keyword_normalized keyword = sin_tildes (lower keyword)"

text \<open>The body of the loop over the keywords of one type: the score after one keyword.\<close>

definition sumar_keyword :: "string \<Rightarrow> string \<Rightarrow> nat \<Rightarrow> string \<Rightarrow> nat" where
  "sumar_keyword nombre_archivo texto_completo score keyword =
     (let kn = keyword_normalized keyword;
          s1 = (if contiene (lower nombre_archivo) kn then score + 3 else score);
          s2 = (if contiene texto_completo kn then s1 + 1 else s1);
          palabras_keyword = split kn
      in if length palabras_keyword > 1 \<and> list_all (contiene texto_completo) palabras_keyword
         then s2 + 2 else s2)"

definition score_tipo :: "string \<Rightarrow> string \<Rightarrow> string list \<Rightarrow> nat" where
  "score_tipo nombre_archivo texto_completo kws =
     foldl (sumar_keyword nombre_archivo texto_completo) 0 kws"

text \<open>\<^verbatim>\<open>max(scores, key=scores.get)\<close> over the entries in insertion order: a later entry
  replaces the best one only with a strictly greater score.\<close>

fun max_key :: "string \<times> nat \<Rightarrow> (string \<times> nat) list \<Rightarrow> string" where
  "max_key best [] = fst best"
| "max_key best (x # xs) = max_key (if snd x > snd best then x else best) xs"

definition clasificar_con :: "(string \<times> string list) list \<Rightarrow> string \<Rightarrow> string \<Rightarrow> string" where
  "clasificar_con tabla nombre_archivo texto_ocr =
     (let texto_completo = normalizar_completo (nombre_archivo @ '' '' @ texto_ocr);
          scores = map (\<lambda>(doc_type, kws). (doc_type, score_tipo nombre_archivo texto_completo kws)) tabla
      in case scores of
           [] \<Rightarrow> ''otro''
         | x # xs \<Rightarrow> if fold max (map snd xs) (snd x) = 0 then ''otro'' else max_key x xs)"

definition clasificar_documento_robusto :: "string \<Rightarrow> string \<Rightarrow> string" where
  "clasificar_documento_robusto nombre_archivo texto_ocr = clasificar_con DOC_KEYWORDS nombre_archivo texto_ocr"

text \<open>
  The score of a type as a formula: 3 for each keyword found in the file name \<open>n\<close>,
  1 for each keyword found in the combined text \<open>tc\<close>, 2 for each keyword of several
  words all of which occur in the combined text.
\<close>

definition puntaje :: "string \<Rightarrow> string \<Rightarrow> string list \<Rightarrow> nat" where
  "puntaje n tc kws =
     3 * length (filter (\<lambda>kw. contiene n (keyword_normalized kw)) kws)
     + length (filter (\<lambda>kw. contiene tc (keyword_normalized kw)) kws)
     + 2 * length (filter (\<lambda>kw. length (split (keyword_normalized kw)) > 1
                                \<and> list_all (contiene tc) (split (keyword_normalized kw))) kws)"

text \<open>The scores of all types in declaration order, with the file name as the code
  reads it (lower case only) and, for comparison, normalised like the combined text.\<close>

definition puntajes :: "string \<Rightarrow> string \<Rightarrow> nat list" where
  "puntajes nombre_archivo texto_ocr =
     map (\<lambda>(doc_type, kws).
            puntaje (lower nombre_archivo) (normalizar_completo (nombre_archivo @ '' '' @ texto_ocr)) kws)
         DOC_KEYWORDS"

definition puntajes_nombre_normalizado :: "string \<Rightarrow> string \<Rightarrow> nat list" where
  "puntajes_nombre_normalizado nombre_archivo texto_ocr =
     map (\<lambda>(doc_type, kws).
            puntaje (normalizar_completo nombre_archivo)
                    (normalizar_completo (nombre_archivo @ '' '' @ texto_ocr)) kws)
         DOC_KEYWORDS"

text \<open>
  The keywords of \<^verbatim>\<open>DOC_KEYWORDS\<close> after \<open>keyword_normalized\<close>, type by type, and their
  words (\<^verbatim>\<open>split\<close>). These two tables are not part of the program: they hold what the
  program computes from its keyword table on every call, so that it is computed once
  (\<open>kn_tabla\<close> and \<open>ws_tabla\<close> below prove that they are those values).
\<close>

definition KN :: "string list list" where
  "KN =
     [[''solicitud'',
       ''carta'',
       ''solicita devolucion'',
       ''motivo de la solicitud'',
       ''carta de solicitud'',
       ''carta de peticion'',
       ''representante legal'',
       ''atentamente'',
       ''cordiales saludos'',
       ''respetados se'' @ [CHR 0xF1] @ ''ores''],
      [''rut'',
       ''registro unico tributario'',
       ''registro unico tributario'',
       ''numero de identificacion tributaria'',
       ''numero de identificacion tributaria''],
      [''camara de comercio'',
       ''camara de comercio'',
       ''certificado de existencia'',
       ''certificado de existencia y representacion'',
       ''certificado de representacion legal'',
       ''matricula mercantil''],
      [''certificacion bancaria'',
       ''certificacion bancaria'',
       ''certificado bancario'',
       ''certificacion de cuenta'',
       ''certificacion de cuenta'',
       ''saldo bancario'',
       ''certificado de saldo'',
       ''entidad financiera'',
       ''numero de cuenta'',
       ''cuenta corriente'',
       ''cuenta de ahorros'',
       ''banco'',
       ''bancaria'',
       ''bancario''],
      [''recibo'',
       ''recibos de pago'',
       ''planilla'',
       ''comprobante de pago'',
       ''comprobante de transaccion'',
       ''voucher de pago'',
       ''pago de planilla'',
       ''transaccion financiera'',
       ''numero de recibo''],
      [''resolucion'',
       ''resolucion'',
       ''revoco'',
       ''revoco'',
       ''revocado'',
       ''multado'',
       ''resolucion administrativa'',
       ''acto administrativo'',
       ''ejecutoriada''],
      [''tarjeta profesional'',
       ''tarjeta prof'',
       ''tarjeta del contador'',
       ''tarjeta del revisor fiscal'',
       ''matricula profesional''],
      [''acta consorcial'',
       ''consorcio'',
       ''union temporal'',
       ''union temporal'',
       ''acta de consorcio'',
       ''contrato de union temporal'',
       ''joint venture''],
      [''contrato'',
       ''salario integral'',
       ''contrato firmado'',
       ''contrato de trabajo'',
       ''contrato laboral'',
       ''clausulas contractuales'']]"

definition WS :: "string list list list" where
  "WS =
     [[[''solicitud''],
       [''carta''],
       [''solicita'', ''devolucion''],
       [''motivo'', ''de'', ''la'', ''solicitud''],
       [''carta'', ''de'', ''solicitud''],
       [''carta'', ''de'', ''peticion''],
       [''representante'', ''legal''],
       [''atentamente''],
       [''cordiales'', ''saludos''],
       [''respetados'', ''se'' @ [CHR 0xF1] @ ''ores'']],
      [[''rut''],
       [''registro'', ''unico'', ''tributario''],
       [''registro'', ''unico'', ''tributario''],
       [''numero'', ''de'', ''identificacion'', ''tributaria''],
       [''numero'', ''de'', ''identificacion'', ''tributaria'']],
      [[''camara'', ''de'', ''comercio''],
       [''camara'', ''de'', ''comercio''],
       [''certificado'', ''de'', ''existencia''],
       [''certificado'', ''de'', ''existencia'', ''y'', ''representacion''],
       [''certificado'', ''de'', ''representacion'', ''legal''],
       [''matricula'', ''mercantil'']],
      [[''certificacion'', ''bancaria''],
       [''certificacion'', ''bancaria''],
       [''certificado'', ''bancario''],
       [''certificacion'', ''de'', ''cuenta''],
       [''certificacion'', ''de'', ''cuenta''],
       [''saldo'', ''bancario''],
       [''certificado'', ''de'', ''saldo''],
       [''entidad'', ''financiera''],
       [''numero'', ''de'', ''cuenta''],
       [''cuenta'', ''corriente''],
       [''cuenta'', ''de'', ''ahorros''],
       [''banco''],
       [''bancaria''],
       [''bancario'']],
      [[''recibo''],
       [''recibos'', ''de'', ''pago''],
       [''planilla''],
       [''comprobante'', ''de'', ''pago''],
       [''comprobante'', ''de'', ''transaccion''],
       [''voucher'', ''de'', ''pago''],
       [''pago'', ''de'', ''planilla''],
       [''transaccion'', ''financiera''],
       [''numero'', ''de'', ''recibo'']],
      [[''resolucion''],
       [''resolucion''],
       [''revoco''],
       [''revoco''],
       [''revocado''],
       [''multado''],
       [''resolucion'', ''administrativa''],
       [''acto'', ''administrativo''],
       [''ejecutoriada'']],
      [[''tarjeta'', ''profesional''],
       [''tarjeta'', ''prof''],
       [''tarjeta'', ''del'', ''contador''],
       [''tarjeta'', ''del'', ''revisor'', ''fiscal''],
       [''matricula'', ''profesional'']],
      [[''acta'', ''consorcial''],
       [''consorcio''],
       [''union'', ''temporal''],
       [''union'', ''temporal''],
       [''acta'', ''de'', ''consorcio''],
       [''contrato'', ''de'', ''union'', ''temporal''],
       [''joint'', ''venture'']],
      [[''contrato''],
       [''salario'', ''integral''],
       [''contrato'', ''firmado''],
       [''contrato'', ''de'', ''trabajo''],
       [''contrato'', ''laboral''],
       [''clausulas'', ''contractuales'']]]"

text \<open>The three counts that make up a score, over normalised keywords and their words.\<close>

definition cuenta :: "string \<Rightarrow> string list \<Rightarrow> nat" where
  "cuenta s ks = length (filter (contiene s) ks)"

definition cuenta_palabras :: "string \<Rightarrow> string list list \<Rightarrow> nat" where
  "cuenta_palabras s wss = length (filter (\<lambda>ws. length ws > 1 \<and> list_all (contiene s) ws) wss)"

section \<open>Normalising file names\<close>

text \<open>
  \<^verbatim>\<open>quitar_acentos\<close>: NFKD decomposition with the combining marks dropped, on the range of
  the model. Inside \<^verbatim>\<open>normalizar_texto\<close> it only ever sees lower-case letters, digits, the
  accented vowels, the letter n with tilde and whitespace. (The micro sign and the three
  fractions decompose to characters outside the range; they are left as they are here
  and never reach the function in this program.)
\<close>

definition sin_marca :: "char \<Rightarrow> char" where
  "sin_marca c =
     (let n = cp c in
      if n = 160 \<or> n = 168 \<or> n = 175 \<or> n = 180 \<or> n = 184 then CHR '' ''
      else if n = 170 then CHR ''a'' else if n = 186 then CHR ''o''
      else if n = 178 then CHR ''2'' else if n = 179 then CHR ''3'' else if n = 185 then CHR ''1''
      else if 192 \<le> n \<and> n \<le> 197 then CHR ''A'' else if n = 199 then CHR ''C''
      else if 200 \<le> n \<and> n \<le> 203 then CHR ''E'' else if 204 \<le> n \<and> n \<le> 207 then CHR ''I''
      else if n = 209 then CHR ''N'' else if 210 \<le> n \<and> n \<le> 214 then CHR ''O''
      else if 217 \<le> n \<and> n \<le> 220 then CHR ''U'' else if n = 221 then CHR ''Y''
      else if 224 \<le> n \<and> n \<le> 229 then CHR ''a'' else if n = 231 then CHR ''c''
      else if 232 \<le> n \<and> n \<le> 235 then CHR ''e'' else if 236 \<le> n \<and> n \<le> 239 then CHR ''i''
      else if n = 241 then CHR ''n'' else if 242 \<le> n \<and> n \<le> 246 then CHR ''o''
      else if 249 \<le> n \<and> n \<le> 252 then CHR ''u'' else if n = 253 \<or> n = 255 then CHR ''y''
      else c)"

definition quitar_acentos :: "string \<Rightarrow> string" where
  "quitar_acentos s = map sin_marca s"

text \<open>The character classes of the patterns of \<^verbatim>\<open>normalizar_texto\<close>.\<close>

definition es_oa :: "char \<Rightarrow> bool" where
  "es_oa c = (lower_char c = CHR ''o'' \<or> lower_char c = CHR ''a'')"

definition es_separador_nombre :: "char \<Rightarrow> bool" where
  "es_separador_nombre c = (c \<in> set [CHR ''_'', CHR ''-'', CHR ''.'', CHR '','', CHR '';'', CHR '':'', CHR ''/'', CHR 0x5C])"

definition permitido :: "char \<Rightarrow> bool" where
  "permitido c =
     ((97 \<le> cp c \<and> cp c \<le> 122) \<or> is_digit c
      \<or> c \<in> set [CHR 0xF1, CHR 0xE1, CHR 0xE9, CHR 0xED, CHR 0xF3, CHR 0xFA] \<or> is_space c)"

text \<open>
  The patterns, in the order in which \<^verbatim>\<open>normalizar_texto\<close> applies them. \<^verbatim>\<open>.\<close> is any
  character but the line feed. The second pattern also admits an en dash, which lies
  outside the range of the model.
\<close>

definition re_pdf :: re where
  "re_pdf = LitI ''.pdf''"

definition re_mail :: re where
  "re_mail = Seq Bnd (Seq (Rep 1 (Some 2) is_digit) (Seq (LitI ''-mail'') (Seq Bnd (Rep 0 None no_salto))))"

definition re_no :: re where
  "re_no = Seq (Rep 0 None is_space) (Seq (Cls (uno_de ''-|''))
             (Seq (Rep 0 None is_space) (Seq (LitI ''no.'') (Rep 0 None no_salto))))"

definition re_nis :: re where
  "re_nis = Seq (Rep 0 None is_space) (Seq Bnd (Seq (LitI ''nis'') (Seq Bnd (Rep 0 None no_salto))))"

definition re_radicado :: re where
  "re_radicado = Seq (Rep 0 None is_space) (Seq Bnd (Seq (LitI ''radicad'')
                   (Seq (Rep 0 (Some 1) es_oa) (Seq Bnd (Rep 0 None no_salto)))))"

definition re_anexos :: re where
  "re_anexos = Seq Bnd (Seq (Alt (LitI ''anexos'') (Alt (LitI ''respuestas'') (LitI ''internas'')))
                 (Seq Bnd (Rep 0 None no_salto)))"

definition re_parentesis :: re where
  "re_parentesis = Seq (Cls (uno_de ''([{'')) (Seq (RepLazy no_salto) (Cls (uno_de '')]}'')))"

definition re_ticketid :: re where
  "re_ticketid = Seq (LitI ''ticketid'') (Seq (Rep 0 (Some 1) (uno_de ''_-'')) (Rep 1 None is_digit))"

definition re_numeros_largos :: re where
  "re_numeros_largos = Seq Bnd (Seq (Rep 5 None is_digit) Bnd)"

definition re_separadores :: re where
  "re_separadores = Rep 1 None es_separador_nombre"

definition re_no_permitido :: re where
  "re_no_permitido = Cls (\<lambda>c. \<not> permitido c)"

text \<open>
  \<^verbatim>\<open>normalizar_texto\<close> in three stretches of consecutive statements: the removal of the
  extension, the truncations and removals of noise, and the general cleaning.
\<close>

definition quitar_ruido :: "string \<Rightarrow> string" where
  "quitar_ruido s =
     re_sub re_numeros_largos '' ''
       (re_sub re_ticketid '' ''
         (re_sub re_parentesis '' ''
           (re_sub re_anexos []
             (re_sub re_radicado []
               (re_sub re_nis []
                 (re_sub re_no []
                   (re_sub re_mail [] s)))))))"

definition limpieza_general :: "string \<Rightarrow> string" where
  "limpieza_general s =
     strip (colapsar_espacios (quitar_acentos (re_sub re_no_permitido '' '' (re_sub re_separadores '' '' s))))"

definition normalizar_texto :: "string \<Rightarrow> string" where
  "normalizar_texto s =
     (if s = [] then [] else limpieza_general (quitar_ruido (re_sub re_pdf [] (lower s))))"

text \<open>\<^verbatim>\<open>tokens_utiles\<close> is not used by the functions modelled here.\<close>

section \<open>Inferring checklist items from a file name\<close>

text \<open>\<^verbatim>\<open>list(dict.fromkeys(xs))\<close>: the elements in the order of their first occurrence.\<close>

definition unicos :: "string list \<Rightarrow> string list" where
  "unicos xs = rev (remdups (rev xs))"

definition todo_markers :: "string list" where
  "todo_markers = [''todo'', ''completo'', ''completa'', ''documentos'', ''documento'', ''anexo'',
                   ''anexos'', ''adjuntos'', ''adjunto'', ''todos'']"

text \<open>The phrases of an item: the normalised title and keywords that are not empty,
  without duplicates, the longer ones first (Python's sort is stable).\<close>

definition frases_de :: "item \<Rightarrow> string list" where
  "frases_de it =
     sort_key (\<lambda>x. - int (length x))
       (unicos (filter (\<lambda>f. f \<noteq> []) (normalizar_texto (titulo it) # map normalizar_texto (item_keywords it))))"

definition item_detectado :: "string \<Rightarrow> item \<Rightarrow> bool" where
  "item_detectado nm it = (find (\<lambda>frase. frase \<noteq> [] \<and> contiene nm frase) (frases_de it) \<noteq> None)"

definition inferir_items_desde_nombre :: "string \<Rightarrow> string \<Rightarrow> string list" where
  "inferir_items_desde_nombre nombre_archivo tipo_devolucion =
     (if nombre_archivo = [] then []
      else
        (let nm = normalizar_texto nombre_archivo in
         if nm = [] then []
         else if list_ex (contiene nm) todo_markers then []
         else
           (let detected = map item_id (filter (item_detectado nm) (CHECKLIST tipo_devolucion))
            in if detected \<noteq> [] then sort (unicos detected) else [])))"

section \<open>Positions of a text and normalised texts\<close>





definition alfanumerico :: "char \<Rightarrow> bool" where
  "alfanumerico c = ((97 \<le> cp c \<and> cp c \<le> 122) \<or> is_digit c \<or> c = CHR '' '')"

chapter \<open>Properties\<close>

section \<open>Business days\<close>

lemma festivos_ord: "map (\<lambda>(y, m, d). ymd2ord y m d) COLOMBIA_FESTIVOS = [739252, 739372, 739452, 739470, 739593, 739610]"
  by code_simp

lemma es_festivo_iff: "es_festivo f \<longleftrightarrow> f \<in> {739252, 739372, 739452, 739470, 739593, 739610}"
  unfolding es_festivo_def festivos_ord by simp

lemma es_dia_habil_iff: "es_dia_habil f \<longleftrightarrow> (f + 6) mod 7 < 5 \<and> \<not> es_festivo f"
  unfolding es_dia_habil_def weekday_def by auto

lemma dos_laborables:
  "\<exists>k1 k2. 1 \<le> k1 \<and> k1 < k2 \<and> k2 \<le> (4::int) \<and> (f + k1 + 6) mod 7 < 5 \<and> (f + k2 + 6) mod 7 < 5"
proof -
  have "(f + 6) mod 7 \<in> {0,1,2,3,4,5,6}" by (simp; presburger)
  then consider "(f + 6) mod 7 = 0" | "(f + 6) mod 7 = 1" | "(f + 6) mod 7 = 2" | "(f + 6) mod 7 = 3"
    | "(f + 6) mod 7 = 4" | "(f + 6) mod 7 = 5" | "(f + 6) mod 7 = 6" by auto
  then show ?thesis
  proof cases
    case 1 then have "(f + 1 + 6) mod 7 < 5 \<and> (f + 2 + 6) mod 7 < 5" by presburger
    then show ?thesis by (intro exI[of _ 1] exI[of _ 2]) simp
  next
    case 2 then have "(f + 1 + 6) mod 7 < 5 \<and> (f + 2 + 6) mod 7 < 5" by presburger
    then show ?thesis by (intro exI[of _ 1] exI[of _ 2]) simp
  next
    case 3 then have "(f + 1 + 6) mod 7 < 5 \<and> (f + 2 + 6) mod 7 < 5" by presburger
    then show ?thesis by (intro exI[of _ 1] exI[of _ 2]) simp
  next
    case 4 then have "(f + 1 + 6) mod 7 < 5 \<and> (f + 4 + 6) mod 7 < 5" by presburger
    then show ?thesis by (intro exI[of _ 1] exI[of _ 4]) simp
  next
    case 5 then have "(f + 3 + 6) mod 7 < 5 \<and> (f + 4 + 6) mod 7 < 5" by presburger
    then show ?thesis by (intro exI[of _ 3] exI[of _ 4]) simp
  next
    case 6 then have "(f + 2 + 6) mod 7 < 5 \<and> (f + 3 + 6) mod 7 < 5" by presburger
    then show ?thesis by (intro exI[of _ 2] exI[of _ 3]) simp
  next
    case 7 then have "(f + 1 + 6) mod 7 < 5 \<and> (f + 2 + 6) mod 7 < 5" by presburger
    then show ?thesis by (intro exI[of _ 1] exI[of _ 2]) simp
  qed
qed

lemma festivos_separados:
  "es_festivo a \<Longrightarrow> es_festivo b \<Longrightarrow> a < b \<Longrightarrow> a + 17 \<le> b"
  unfolding es_festivo_iff by auto

lemma habil_en_cuatro: "\<exists>k. 1 \<le> k \<and> k \<le> 4 \<and> es_dia_habil (f + k)"
proof -
  obtain k1 k2 where k: "1 \<le> k1" "k1 < k2" "k2 \<le> (4::int)"
    "(f + k1 + 6) mod 7 < 5" "(f + k2 + 6) mod 7 < 5"
    using dos_laborables by blast
  show ?thesis
  proof (cases "es_festivo (f + k1)")
    case False
    with k show ?thesis unfolding es_dia_habil_iff by (intro exI[of _ k1]) simp
  next
    case True
    have "\<not> es_festivo (f + k2)"
    proof
      assume "es_festivo (f + k2)"
      from festivos_separados[OF True this] k show False by simp
    qed
    with k show ?thesis unfolding es_dia_habil_iff by (intro exI[of _ k2]) simp
  qed
qed

lemma habiles_entre_vacio: "b \<le> a \<Longrightarrow> habiles_entre a b = 0"
  by (simp add: habiles_entre_def)

lemma habiles_entre_paso:
  "a < b \<Longrightarrow> habiles_entre a b = (if es_dia_habil (a + 1) then 1 else 0) + habiles_entre (a + 1) b"
  by (simp add: habiles_entre_def upto_rec1[of "a + 1" b])

lemma habiles_entre_nonneg: "0 \<le> habiles_entre a b"
  by (simp add: habiles_entre_def)

lemma habiles_entre_suma:
  "a \<le> b \<Longrightarrow> b \<le> c \<Longrightarrow> habiles_entre a c = habiles_entre a b + habiles_entre b c"
proof -
  assume ab: "a \<le> b" and bc: "b \<le> c"
  show ?thesis
  proof (cases "a = b")
    case True then show ?thesis by (simp add: habiles_entre_vacio)
  next
    case False
    with ab have "a + 1 \<le> b" by simp
    from upto_split2[OF this bc] show ?thesis by (simp add: habiles_entre_def)
  qed
qed

lemma habiles_entre_mono: "b \<le> c \<Longrightarrow> habiles_entre a b \<le> habiles_entre a c"
proof (cases "a \<le> b")
  case True
  assume "b \<le> c"
  from habiles_entre_suma[OF True this] habiles_entre_nonneg[of b c] show ?thesis by simp
next
  case False
  then show ?thesis by (simp add: habiles_entre_vacio habiles_entre_nonneg)
qed

lemma habiles_entre_cuatro: "1 \<le> habiles_entre f (f + 4)"
proof -
  obtain k where k: "1 \<le> k" "k \<le> 4" "es_dia_habil (f + k)"
    using habil_en_cuatro by blast
  then have "f + k \<in> set (filter es_dia_habil [f + 1..f + 4])" by simp
  then have "filter es_dia_habil [f + 1..f + 4] \<noteq> []" by (metis empty_iff empty_set)
  then have "0 < length (filter es_dia_habil [f + 1..f + 4])" by blast
  then show ?thesis unfolding habiles_entre_def by linarith
qed

lemma habiles_entre_4n: "int n \<le> habiles_entre f (f + 4 * int n)"
proof (induction n)
  case 0 show ?case by (simp add: habiles_entre_vacio)
next
  case (Suc n)
  have "habiles_entre f (f + 4 * int (Suc n)) =
        habiles_entre f (f + 4 * int n) + habiles_entre (f + 4 * int n) (f + 4 * int n + 4)"
    using habiles_entre_suma[of f "f + 4 * int n" "f + 4 * int (Suc n)"] by (simp add: algebra_simps)
  with Suc habiles_entre_cuatro[of "f + 4 * int n"] show ?case by simp
qed

lemma habiles_loop_vuelve:
  "MINORD - 1 \<le> f \<Longrightarrow> n - c \<le> habiles_entre f MAXORD \<Longrightarrow> \<exists>r. habiles_loop f c n = Inr r"
proof (induction f c n rule: habiles_loop.induct)
  case (1 fecha contador dias)
  show ?case
  proof (cases "contador < dias")
    case False
    then show ?thesis by (subst habiles_loop.simps) simp
  next
    case True
    with "1.prems" have pos: "1 \<le> habiles_entre fecha MAXORD" by simp
    have lt: "fecha < MAXORD"
    proof (rule ccontr)
      assume "\<not> fecha < MAXORD"
      then have "habiles_entre fecha MAXORD = 0" by (simp add: habiles_entre_vacio)
      with pos show False by simp
    qed
    with "1.prems" have ad: "add_days fecha 1 = Inr (fecha + 1)" by (simp add: add_days_def)
    have "\<exists>r. habiles_loop (fecha + 1) (if es_dia_habil (fecha + 1) then contador + 1 else contador) dias = Inr r"
    proof (rule "1.IH"[OF True ad])
      show "MINORD - 1 \<le> fecha + 1" using "1.prems" by simp
      show "dias - (if es_dia_habil (fecha + 1) then contador + 1 else contador) \<le> habiles_entre (fecha + 1) MAXORD"
        using "1.prems"(2) habiles_entre_paso[OF lt] by (simp split: if_splits)
    qed
    then show ?thesis using True ad by (subst habiles_loop.simps) simp
  qed
qed

lemma habiles_loop_desborda:
  "habiles_entre f MAXORD < n - c \<Longrightarrow> habiles_loop f c n = Inl OverflowError"
proof (induction f c n rule: habiles_loop.induct)
  case (1 fecha contador dias)
  from "1.prems" habiles_entre_nonneg[of fecha MAXORD] have lt: "contador < dias" by simp
  show ?case
  proof (cases "add_days fecha 1")
    case (Inl e)
    then have "e = OverflowError" by (simp add: add_days_def split: if_splits)
    with Inl lt show ?thesis by (subst habiles_loop.simps) simp
  next
    case (Inr f')
    then have f': "f' = fecha + 1" and le: "fecha < MAXORD" by (auto simp: add_days_def split: if_splits)
    have "habiles_loop f' (if es_dia_habil f' then contador + 1 else contador) dias = Inl OverflowError"
    proof (rule "1.IH"[OF lt Inr])
      show "habiles_entre f' MAXORD < dias - (if es_dia_habil f' then contador + 1 else contador)"
        using "1.prems" habiles_entre_paso[OF le] f' by (simp split: if_splits)
    qed
    with Inr lt show ?thesis by (subst habiles_loop.simps) simp
  qed
qed

lemma habiles_loop_resultado:
  "habiles_loop f c n = Inr r \<Longrightarrow> c \<le> n \<Longrightarrow>
     f \<le> r \<and> habiles_entre f r = n - c \<and> (c < n \<longrightarrow> es_dia_habil r \<and> r \<le> MAXORD)"
proof (induction f c n rule: habiles_loop.induct)
  case (1 fecha contador dias)
  show ?case
  proof (cases "contador < dias")
    case False
    with "1.prems"(1) have "r = fecha" by (subst (asm) habiles_loop.simps) simp
    with False "1.prems"(2) show ?thesis by (simp add: habiles_entre_vacio)
  next
    case True
    from "1.prems"(1) True obtain f' where ad: "add_days fecha 1 = Inr f'"
      and rec: "habiles_loop f' (if es_dia_habil f' then contador + 1 else contador) dias = Inr r"
      by (subst (asm) habiles_loop.simps) (auto split: sum.splits)
    from ad have f': "f' = fecha + 1" and le: "f' \<le> MAXORD" by (auto simp: add_days_def split: if_splits)
    have c': "(if es_dia_habil f' then contador + 1 else contador) \<le> dias" using True by simp
    note ih = "1.IH"[OF True ad rec c']
    from ih f' have fr: "fecha < r" by simp
    show ?thesis
    proof (cases "es_dia_habil f'")
      case h: True
      show ?thesis
      proof (cases "contador + 1 < dias")
        case True
        with ih h fr habiles_entre_paso[OF fr] f' show ?thesis by simp
      next
        case False
        with True have eq: "contador + 1 = dias" by simp
        with rec h have "r = f'" by (subst (asm) habiles_loop.simps) simp
        with ih h fr habiles_entre_paso[OF fr] f' le eq show ?thesis by simp
      qed
    next
      case h: False
      with ih True fr habiles_entre_paso[OF fr] f' show ?thesis by simp
    qed
  qed
qed

lemma quedan_habiles: "0 \<le> n \<Longrightarrow> f + 4 * n \<le> MAXORD \<Longrightarrow> n \<le> habiles_entre f MAXORD"
proof -
  assume n: "0 \<le> n" and le: "f + 4 * n \<le> MAXORD"
  from n obtain k where k: "n = int k" using nonneg_int_cases by blast
  from habiles_entre_4n[of k f] habiles_entre_mono[OF le, of f] k show ?thesis by simp
qed

text \<open>
  C2 (as amended). For every start date \<open>f\<close> and every count \<open>n \<ge> 0\<close>:
  when at least \<open>n\<close> business days are left in the calendar after \<open>f\<close>
  (up to \<^verbatim>\<open>date.max\<close>), \<^verbatim>\<open>fecha_limite_habiles(f, n)\<close> returns a date \<open>r \<ge> f\<close>
  such that exactly \<open>n\<close> business days lie strictly after \<open>f\<close> up to and including
  \<open>r\<close>, and \<open>r\<close> is a business day whenever \<open>n \<ge> 1\<close>; for \<open>n = 0\<close> the date
  returned is the start date \<open>f\<close> itself, whatever day it is; when fewer than \<open>n\<close> business
  days are left, the walk runs past \<^verbatim>\<open>date.max\<close> and raises \<^verbatim>\<open>OverflowError\<close>.
\<close>

theorem fecha_limite_habiles_correcta:
  assumes "MINORD \<le> f" and "0 \<le> n"
  shows "(n \<le> habiles_entre f MAXORD \<longrightarrow>
           (\<exists>r. fecha_limite_habiles f n = Inr r \<and> f \<le> r \<and> habiles_entre f r = n
                \<and> (0 < n \<longrightarrow> es_dia_habil r) \<and> (n = 0 \<longrightarrow> r = f)))
       \<and> (habiles_entre f MAXORD < n \<longrightarrow> fecha_limite_habiles f n = Inl OverflowError)"
proof (intro conjI impI)
  assume "n \<le> habiles_entre f MAXORD"
  with assms habiles_loop_vuelve[of f n 0] obtain r where r: "habiles_loop f 0 n = Inr r" by auto
  have cero: "n = 0 \<longrightarrow> r = f" using r by (auto simp: habiles_loop.simps[of f 0 0])
  from habiles_loop_resultado[OF r assms(2)] r cero
  show "\<exists>r. fecha_limite_habiles f n = Inr r \<and> f \<le> r \<and> habiles_entre f r = n
          \<and> (0 < n \<longrightarrow> es_dia_habil r) \<and> (n = 0 \<longrightarrow> r = f)"
    by (simp add: fecha_limite_habiles_def)
next
  assume "habiles_entre f MAXORD < n"
  then show "fecha_limite_habiles f n = Inl OverflowError"
    using habiles_loop_desborda[of f n 0] by (simp add: fecha_limite_habiles_def)
qed

theorem fecha_limite_habiles_correcta_witness:
  "MINORD \<le> 739252 \<and> (0::int) \<le> 30 \<and> 30 \<le> habiles_entre 739252 MAXORD \<and>
   (\<exists>r. fecha_limite_habiles 739252 30 = Inr r \<and> 739252 \<le> r \<and> habiles_entre 739252 r = 30
        \<and> es_dia_habil r) \<and>
   0 \<le> habiles_entre 739255 MAXORD \<and> fecha_limite_habiles 739255 0 = Inr 739255"
proof -
  have a: "MINORD \<le> 739252" by (simp add: MINORD_def)
  have b: "(0::int) \<le> 30" by simp
  have c: "30 \<le> habiles_entre 739252 MAXORD" by (rule quedan_habiles) (simp_all add: MAXORD_def)
  have a0: "MINORD \<le> 739255" by (simp add: MINORD_def)
  have c0: "0 \<le> habiles_entre 739255 MAXORD" by (rule habiles_entre_nonneg)
  have t30: "\<exists>r. fecha_limite_habiles 739252 30 = Inr r \<and> 739252 \<le> r \<and> habiles_entre 739252 r = 30
        \<and> es_dia_habil r"
    using fecha_limite_habiles_correcta[OF a b] c by simp
  have t0: "fecha_limite_habiles 739255 0 = Inr 739255"
    using fecha_limite_habiles_correcta[OF a0, of 0] c0 by auto
  from a b c t30 c0 t0 show ?thesis by blast
qed

text \<open>
  C2 as stated fails for \<open>n = 0\<close>: the loop body never runs and the start date itself
  is returned, here Saturday 2025-01-04 (ordinal 739255), which is not a business day.
\<close>

theorem fecha_limite_habiles_cero_counterexample: "fecha_limite_habiles 739255 0 = Inr 739255 \<and> \<not> es_dia_habil 739255"
  by (simp add: fecha_limite_habiles_def habiles_loop.simps[of _ 0 0] es_dia_habil_def weekday_def)

section \<open>Checklist evaluation\<close>

text \<open>
  C1. For a checklist item with a validity window of \<open>v\<close> business days (\<open>v\<close> truthy)
  and a Document whose issuance date resolves to \<open>d\<close>, with the receipt date \<open>r\<close>
  and the expiry \<^verbatim>\<open>fecha_limite_habiles(d, v)\<close> = \<open>limite\<close>: the status the validity
  check produces, before the confidence and signature overrides, is \<open>C\<close> (Complete)
  exactly when \<open>r \<le> limite\<close>, the boundary date included, and \<open>Falta\<close> (Missing)
  when \<open>r\<close> is strictly after it.
\<close>

theorem validar_vigencia_inclusiva:
  assumes "vigencia_dias it = Some v" and "v \<noteq> 0"
    and "fst (resolver_fecha env it doc) = Some d"
    and "obtener_fecha_date env fecha_recepcion_dt = Some r"
    and "fecha_limite_habiles d v = Inr limite"
  shows "fst (revisar_vigencia env fecha_recepcion_dt it doc) = (if r \<le> limite then C else Falta)"
  using assms by (auto simp: revisar_vigencia_def validar_vigencia_def Let_def split: prod.splits option.splits)

theorem validar_vigencia_inclusiva_witness:
  "vigencia_dias it_cert_bancaria = Some 30 \<and> (30::int) \<noteq> 0
   \<and> fst (resolver_fecha env_ejemplo it_cert_bancaria doc_bancario) = Some 739252
   \<and> obtener_fecha_date env_ejemplo (FDate 739294) = Some 739294
   \<and> fecha_limite_habiles 739252 30 = Inr 739294
   \<and> fst (revisar_vigencia env_ejemplo (FDate 739294) it_cert_bancaria doc_bancario) = C"
proof -
  have a: "vigencia_dias it_cert_bancaria = Some 30" by (simp add: it_cert_bancaria_def)
  have b: "(30::int) \<noteq> 0" by simp
  have c: "fst (resolver_fecha env_ejemplo it_cert_bancaria doc_bancario) = Some 739252" by code_simp
  have d: "obtener_fecha_date env_ejemplo (FDate 739294) = Some 739294" by (simp add: obtener_fecha_date_def)
  have e: "fecha_limite_habiles 739252 30 = Inr 739294" by code_simp
  from validar_vigencia_inclusiva[OF a b c d e] a b c d e show ?thesis by simp
qed

subsection \<open>The loop over the Documents\<close>

lemma paso_doc_no_cumple:
  "\<not> cumple_umbral ai it doc \<Longrightarrow> paso_doc env fr ai it acc doc = (acc, doc)"
  by (simp add: paso_doc_def)

lemma fst_ajustes:
  "fst (ajuste_firma it doc (ajuste_confianza doc (e, obs))) =
   fst (ajuste_firma it doc (ajuste_confianza doc (e, obs')))"
  by (simp add: ajuste_firma_def ajuste_confianza_def)

lemma paso_doc_estado:
  "cumple_umbral ai it doc \<Longrightarrow>
     fst (fst (paso_doc env fr ai it acc doc)) = fst (fst (paso_doc env fr ai it (Falta, [], []) doc))"
proof -
  assume c: "cumple_umbral ai it doc"
  let ?v = "revisar_vigencia env fr it doc"
  let ?X = "\<lambda>obs. fst (ajuste_firma it (snd (snd ?v)) (ajuste_confianza (snd (snd ?v)) (fst ?v, obs)))"
  have l: "fst (fst (paso_doc env fr ai it acc doc)) =
        ?X ((snd (snd acc) @ (if es_inferido ai it then [ObsInferencia] else [])) @ fst (snd ?v))"
    using c by (simp add: paso_doc_def Let_def)
  have r: "fst (fst (paso_doc env fr ai it (Falta, [], []) doc)) =
        ?X ((if es_inferido ai it then [ObsInferencia] else []) @ fst (snd ?v))"
    using c by (simp add: paso_doc_def Let_def)
  show ?thesis unfolding l r by (rule fst_ajustes)
qed

lemma paso_doc_archivos:
  "fst (snd (fst (paso_doc env fr ai it acc doc))) =
     fst (snd acc) @ (if cumple_umbral ai it doc then [(archivo doc, paginas doc)] else [])"
  by (simp add: paso_doc_def Let_def)

lemma bucle_docs_archivos:
  "fst (snd (fst (bucle_docs env fr ai it acc docs))) =
     fst (snd acc) @ map (\<lambda>d. (archivo d, paginas d)) (filter (cumple_umbral ai it) docs)"
proof (induction docs arbitrary: acc)
  case Nil
  show ?case by simp
next
  case (Cons doc docs)
  obtain acc' doc' where p: "paso_doc env fr ai it acc doc = (acc', doc')" by (cases "paso_doc env fr ai it acc doc")
  have a: "fst (snd acc') = fst (snd acc) @ (if cumple_umbral ai it doc then [(archivo doc, paginas doc)] else [])"
    using paso_doc_archivos[of env fr ai it acc doc] p by simp
  obtain acc'' docs' where b: "bucle_docs env fr ai it acc' docs = (acc'', docs')"
    by (cases "bucle_docs env fr ai it acc' docs")
  have "fst (snd acc'') = fst (snd acc') @ map (\<lambda>d. (archivo d, paginas d)) (filter (cumple_umbral ai it) docs)"
    using Cons.IH[of acc'] b by simp
  then show ?case using p a b by simp
qed

lemma bucle_docs_estado:
  "fst (fst (bucle_docs env fr ai it acc docs)) =
     (if filter (cumple_umbral ai it) docs = [] then fst acc
      else fst (fst (paso_doc env fr ai it (Falta, [], []) (last (filter (cumple_umbral ai it) docs)))))"
proof (induction docs arbitrary: acc)
  case Nil
  show ?case by simp
next
  case (Cons doc docs)
  obtain acc' doc' where p: "paso_doc env fr ai it acc doc = (acc', doc')" by (cases "paso_doc env fr ai it acc doc")
  have b: "fst (fst (bucle_docs env fr ai it acc (doc # docs))) = fst (fst (bucle_docs env fr ai it acc' docs))"
    using p by (simp split: prod.splits)
  show ?case
  proof (cases "cumple_umbral ai it doc")
    case False
    then have "acc' = acc" using p by (simp add: paso_doc_no_cumple)
    with b Cons.IH[of acc] False show ?thesis by simp
  next
    case True
    have "fst acc' = fst (fst (paso_doc env fr ai it (Falta, [], []) doc))"
      using paso_doc_estado[OF True, of env fr acc] p by simp
    with b Cons.IH[of acc'] True show ?thesis by simp
  qed
qed

lemma evaluar_item_estado:
  assumes "puerta pet it = None"
  shows "estado_de (evaluar_item env it docs fr pet ai) =
     (if filter (cumple_umbral ai it) docs = [] then (if \<not> requerido it then NA else Falta)
      else fst (fst (paso_doc env fr ai it (Falta, [], []) (last (filter (cumple_umbral ai it) docs)))))"
proof -
  obtain e a obs docs' where b: "bucle_docs env fr ai it (Falta, [], []) docs = ((e, a, obs), docs')"
    by (cases "bucle_docs env fr ai it (Falta, [], []) docs") auto
  have a: "a = map (\<lambda>d. (archivo d, paginas d)) (filter (cumple_umbral ai it) docs)"
    using bucle_docs_archivos[of env fr ai it "(Falta, [], [])" docs] b by simp
  have e: "e = (if filter (cumple_umbral ai it) docs = [] then Falta
      else fst (fst (paso_doc env fr ai it (Falta, [], []) (last (filter (cumple_umbral ai it) docs)))))"
    using bucle_docs_estado[of env fr ai it "(Falta, [], [])" docs] b by simp
  show ?thesis using assms b a e by (simp add: evaluar_item_def estado_de_def)
qed

text \<open>
  C5 (as amended). For an item that passes the applicability gate and a Document list in
  which at least one Document meets the acceptance threshold, the status returned by
  \<^verbatim>\<open>evaluar_item\<close> is the one determined by evaluating the last such Document: the
  loop has no \<^verbatim>\<open>break\<close>, every Document that meets the threshold sets the status anew,
  so the Documents before the last match do not change it.
\<close>

theorem evaluar_item_ultimo_documento:
  assumes "puerta peticionario_tipo it = None"
    and "\<exists>doc \<in> set docs. cumple_umbral archivo_inferido it doc"
  shows "estado_de (evaluar_item env it docs fecha_recepcion_dt peticionario_tipo archivo_inferido) =
         estado_de (evaluar_item env it [last (filter (cumple_umbral archivo_inferido it) docs)]
                      fecha_recepcion_dt peticionario_tipo archivo_inferido)"
proof -
  let ?ms = "filter (cumple_umbral archivo_inferido it) docs"
  from assms(2) have ne: "?ms \<noteq> []" by (auto simp: filter_empty_conv)
  then have "last ?ms \<in> set ?ms" by (rule last_in_set)
  then have c: "cumple_umbral archivo_inferido it (last ?ms)" unfolding set_filter by blast
  show ?thesis using ne c by (simp add: evaluar_item_estado[OF assms(1)])
qed


theorem evaluar_item_ultimo_documento_witness:
  "puerta ''persona_juridica'' it_rut = None
   \<and> (\<exists>doc \<in> set [doc_rut_corto, doc_rut_largo]. cumple_umbral [] it_rut doc)
   \<and> last (filter (cumple_umbral [] it_rut) [doc_rut_corto, doc_rut_largo]) = doc_rut_largo
   \<and> estado_de (evaluar_item env_ejemplo it_rut [doc_rut_corto, doc_rut_largo] FNone ''persona_juridica'' []) = C
   \<and> estado_de (evaluar_item env_ejemplo it_rut [doc_rut_largo] FNone ''persona_juridica'' []) = C"
proof -
  have a: "puerta ''persona_juridica'' it_rut = None" by code_simp
  have c1: "cumple_umbral [] it_rut doc_rut_corto" by code_simp
  have c2: "cumple_umbral [] it_rut doc_rut_largo" by code_simp
  have b: "\<exists>doc \<in> set [doc_rut_corto, doc_rut_largo]. cumple_umbral [] it_rut doc" using c1 by simp
  have l: "last (filter (cumple_umbral [] it_rut) [doc_rut_corto, doc_rut_largo]) = doc_rut_largo"
    using c1 c2 by simp
  have e: "estado_de (evaluar_item env_ejemplo it_rut [doc_rut_largo] FNone ''persona_juridica'' []) = C"
    by code_simp
  from evaluar_item_ultimo_documento[OF a b, of env_ejemplo FNone] a b l e show ?thesis by simp
qed

text \<open>
  C5 as stated fails: both Documents meet the threshold for the item \<^verbatim>\<open>rut\<close>; the first
  alone gives \<open>C\<close>, but the second (a text shorter than 40 characters) is evaluated
  after it and leaves \<open>Revision\<close>.
\<close>

theorem evaluar_item_primer_documento_counterexample:
  "puerta ''persona_juridica'' it_rut = None
   \<and> filter (cumple_umbral [] it_rut) [doc_rut_largo, doc_rut_corto] = [doc_rut_largo, doc_rut_corto]
   \<and> estado_de (evaluar_item env_ejemplo it_rut [doc_rut_largo, doc_rut_corto] FNone ''persona_juridica'' []) = Revision
   \<and> estado_de (evaluar_item env_ejemplo it_rut [doc_rut_largo] FNone ''persona_juridica'' []) = C"
  by code_simp

text \<open>
  C6, on the code: a matched bank certificate issued 2025-01-01, received on 2025-02-13,
  one day after its 30 business days ran out, with OCR confidence 10. The validity check
  gives \<open>Falta\<close> (Missing); the confidence override assigns \<open>Revision\<close> without
  looking at the status, so \<^verbatim>\<open>evaluar_item\<close> returns \<open>Revision\<close>, where the claim
  leaves every status other than Complete unchanged.
\<close>

theorem confianza_baja_pisa_falta:
  "cumple_umbral [] it_cert_bancaria doc_bancario_borroso
   \<and> fst (revisar_vigencia env_ejemplo (FDate 739295) it_cert_bancaria doc_bancario_borroso) = Falta
   \<and> estado_de (evaluar_item env_ejemplo it_cert_bancaria [doc_bancario_borroso] (FDate 739295)
                   ''persona_juridica'' []) = Revision"
  by code_simp

section \<open>Page aggregation\<close>

lemma agrupar_loop_acc:
  "agrupar_loop np_mean documentos current ps = documentos @ agrupar_loop np_mean [] current ps"
proof (induction ps arbitrary: documentos current)
  case Nil
  show ?case by (simp split: option.splits)
next
  case (Cons p ps)
  show ?case
  proof (cases current)
    case None
    then show ?thesis using Cons[of documentos "Some (nuevo_actual p)"] by simp
  next
    case (Some c)
    show ?thesis
    proof (cases "tipo_de p = a_tipo_detectado c")
      case True
      then show ?thesis using Some Cons[of documentos "Some (extender_actual c p)"] by simp
    next
      case False
      then show ?thesis using Some Cons[of "documentos @ [emitir np_mean c]" "Some (nuevo_actual p)"]
          Cons[of "[emitir np_mean c]" "Some (nuevo_actual p)"] by simp
    qed
  qed
qed

lemma rep_nuevo: "rep (nuevo_actual p) [p]"
  by (simp add: rep_def nuevo_actual_def)

lemma rep_extender: "rep c r \<Longrightarrow> tipo_de p = a_tipo_detectado c \<Longrightarrow> rep (extender_actual c p) (r @ [p])"
  by (auto simp: rep_def extender_actual_def)

lemma tipo_extender: "a_tipo_detectado (extender_actual c p) = a_tipo_detectado c"
  by (simp add: extender_actual_def)

lemma doc_de_corrida_emitir: "rep c r \<Longrightarrow> doc_de_corrida np_mean (emitir np_mean c) r"
  by (auto simp: rep_def doc_de_corrida_def emitir_def media_def)

lemma agrupar_loop_corridas:
  "rep c r \<Longrightarrow>
   \<exists>runs. concat runs = r @ ps
        \<and> list_all2 (doc_de_corrida np_mean) (agrupar_loop np_mean [] (Some c) ps) runs
        \<and> distinct_adj (map tipo_detectado (agrupar_loop np_mean [] (Some c) ps))
        \<and> agrupar_loop np_mean [] (Some c) ps \<noteq> []
        \<and> tipo_detectado (hd (agrupar_loop np_mean [] (Some c) ps)) = a_tipo_detectado c"
proof (induction ps arbitrary: c r)
  case Nil
  then have "doc_de_corrida np_mean (emitir np_mean c) r" by (rule doc_de_corrida_emitir)
  then show ?case by (intro exI[of _ "[r]"]) (simp add: emitir_def)
next
  case (Cons p ps)
  show ?case
  proof (cases "tipo_de p = a_tipo_detectado c")
    case True
    from Cons.IH[OF rep_extender[OF Cons.prems True]] True
    show ?thesis by (simp add: tipo_extender)
  next
    case False
    let ?rest = "agrupar_loop np_mean [] (Some (nuevo_actual p)) ps"
    from Cons.IH[OF rep_nuevo[of p]] obtain runs where
      r: "concat runs = [p] @ ps" "list_all2 (doc_de_corrida np_mean) ?rest runs"
         "distinct_adj (map tipo_detectado ?rest)" "?rest \<noteq> []"
         "tipo_detectado (hd ?rest) = a_tipo_detectado (nuevo_actual p)"
      by blast
    have eq: "agrupar_loop np_mean [] (Some c) (p # ps) = emitir np_mean c # ?rest"
      using False agrupar_loop_acc[of np_mean "[emitir np_mean c]" "Some (nuevo_actual p)" ps] by simp
    have d: "doc_de_corrida np_mean (emitir np_mean c) r" using Cons.prems by (rule doc_de_corrida_emitir)
    have t: "tipo_detectado (emitir np_mean c) \<noteq> tipo_detectado (hd ?rest)"
      using False r(5) by (simp add: emitir_def nuevo_actual_def)
    have da: "distinct_adj (map tipo_detectado (emitir np_mean c # ?rest))"
      using r(3) r(4) t by (cases ?rest) (simp_all add: distinct_adj_Cons)
    show ?thesis unfolding eq
      using r(1) r(2) d da by (intro exI[of _ "r # runs"]) (simp add: emitir_def)
  qed
qed

subsection \<open>Rounding to float64\<close>

lemma redondear_par_entero: "redondear_par (of_int n) = n"
  by (simp add: redondear_par_def)

lemma bitlen_igual:
  assumes "2 ^ b \<le> n" and "n < 2 ^ (Suc b)"
  shows "bitlen n = int b + 1"
proof (rule antisym)
  show "bitlen n \<le> int b + 1" using assms(2) by (simp add: bitlen_le_iff_power nat_add_distrib)
  show "int b + 1 \<le> bitlen n" using assms(1) by (simp add: bitlen_ge_iff_power nat_add_distrib)
qed

lemma redondeo64_normal:
  assumes "0 < x" and "k \<le> 1074" and "2 ^ 52 \<le> x * 2 ^ k" and "x * 2 ^ k < 2 ^ 53"
  shows "redondeo64 x = of_int (redondear_par (x * 2 ^ k)) / 2 ^ k"
proof -
  define j where "j = 1074 - k"
  have kj: "k + j = 1074" using assms(2) by (simp add: j_def)
  have p: "(2::real) ^ 1074 = 2 ^ k * 2 ^ j" unfolding kj[symmetric] by (rule power_add)
  define q where "q = \<bar>x\<bar> * 2 ^ 1074"
  have q: "q = (x * 2 ^ k) * 2 ^ j"
    by (simp only: q_def p abs_of_pos[OF assms(1)] mult.assoc)
  have lo: "(2::real) ^ (52 + j) \<le> q" unfolding q power_add
    using assms(3) by (simp add: mult_right_mono)
  have hi: "q < 2 ^ (53 + j)" unfolding q power_add
    using assms(4) by (simp add: mult_strict_right_mono)
  have flo: "(2::int) ^ (52 + j) \<le> \<lfloor>q\<rfloor>" using lo by (simp add: le_floor_iff)
  have fhi: "\<lfloor>q\<rfloor> < 2 ^ (Suc (52 + j))" using hi by (simp add: floor_less_iff)
  have b: "bitlen \<lfloor>q\<rfloor> = int (52 + j) + 1" by (rule bitlen_igual[OF flo fhi])
  have u: "cuanto q = 2 ^ j" by (simp add: cuanto_def b Let_def nat_add_distrib)
  have d: "q / 2 ^ j = x * 2 ^ k" by (simp add: q)
  have "redondeo64 x = of_int (redondear_par (x * 2 ^ k)) * 2 ^ j / 2 ^ 1074"
    using assms(1) unfolding redondeo64_def q_def[symmetric] Let_def u d by simp
  also have "\<dots> = of_int (redondear_par (x * 2 ^ k)) / 2 ^ k" unfolding p by simp
  finally show ?thesis .
qed

lemma redondeo64_exacto:
  assumes "0 < x" and "k \<le> 1074" and "2 ^ 52 \<le> x * 2 ^ k" and "x * 2 ^ k < 2 ^ 53"
    and "x * 2 ^ k = of_int n"
  shows "redondeo64 x = x"
proof -
  have "redondeo64 x = of_int n / 2 ^ k"
    unfolding redondeo64_normal[OF assms(1-4)] assms(5) redondear_par_entero ..
  also have "\<dots> = x" unfolding assms(5)[symmetric] by simp
  finally show ?thesis .
qed

lemma redondeo64_cero: "redondeo64 0 = 0"
  by (simp add: redondeo64_def)

lemma r64_171_2: "redondeo64 (171 / 2) = 171 / 2"
  by (rule redondeo64_exacto[where k = 46 and n = "171 * 2 ^ 45"]) simp_all

lemma r64_361_4: "redondeo64 (361 / 4) = 361 / 4"
  by (rule redondeo64_exacto[where k = 46 and n = "361 * 2 ^ 44"]) simp_all

lemma r64_70: "redondeo64 70 = 70"
  by (rule redondeo64_exacto[where k = 46 and n = "70 * 2 ^ 46"]) simp_all

lemma r64_703_4: "redondeo64 (703 / 4) = 703 / 4"
  by (rule redondeo64_exacto[where k = 45 and n = "703 * 2 ^ 43"]) simp_all

lemma r64_983_4: "redondeo64 (983 / 4) = 983 / 4"
  by (rule redondeo64_exacto[where k = 45 and n = "983 * 2 ^ 43"]) simp_all

lemma r64_80: "redondeo64 80 = 80"
  by (rule redondeo64_exacto[where k = 46 and n = "80 * 2 ^ 46"]) simp_all

lemma r64_90: "redondeo64 90 = 90"
  by (rule redondeo64_exacto[where k = 46 and n = "90 * 2 ^ 46"]) simp_all

lemma r64_75: "redondeo64 75 = 75"
  by (rule redondeo64_exacto[where k = 46 and n = "75 * 2 ^ 46"]) simp_all

lemma r64_150: "redondeo64 150 = 150"
  by (rule redondeo64_exacto[where k = 45 and n = "150 * 2 ^ 45"]) simp_all

lemma r64_983_12: "redondeo64 (983 / 12) = 5764372960553643 / 2 ^ 46"
proof -
  have a: "(983 / 12 :: real) * 2 ^ 46 = 17293118881660928 / 3" by simp
  have r: "redondear_par (17293118881660928 / 3) = 5764372960553643"
    by (simp add: redondear_par_def Let_def)
  have "redondeo64 (983 / 12) = of_int (redondear_par (983 / 12 * 2 ^ 46)) / 2 ^ 46"
    by (rule redondeo64_normal) simp_all
  also have "\<dots> = of_int 5764372960553643 / 2 ^ 46" by (simp only: a r)
  finally show ?thesis by simp
qed

lemma suma_f64_cero: "suma_f64 0 x = redondeo64 x"
  by (simp add: suma_f64_def)

lemma pairwise_sum_corta: "length a < 8 \<Longrightarrow> pairwise_sum a = foldl suma_f64 0 a"
  by (subst pairwise_sum.simps) simp

lemma np_mean_tres: "np_mean_float64 [171 / 2, 361 / 4, 70] = 5764372960553643 / 2 ^ 46"
proof -
  have s2: "(171 / 2 + 361 / 4 :: real) = 703 / 4" by simp
  have s3: "(703 / 4 + 70 :: real) = 983 / 4" by simp
  have "pairwise_sum (map redondeo64 [171 / 2, 361 / 4, 70]) = foldl suma_f64 0 [171 / 2, 361 / 4, 70]"
    by (simp add: pairwise_sum_corta r64_171_2 r64_361_4 r64_70)
  also have "\<dots> = suma_f64 (suma_f64 (171 / 2) (361 / 4)) 70"
    by (simp only: foldl.simps suma_f64_cero r64_171_2)
  also have "\<dots> = 983 / 4"
    unfolding suma_f64_def by (simp only: s2 r64_703_4 s3 r64_983_4)
  finally have ps: "pairwise_sum (map redondeo64 [171 / 2, 361 / 4, 70]) = 983 / 4" .
  have d: "(983 / 4 :: real) / real (length [171 / 2, 361 / 4, 70 :: real]) = 983 / 12" by simp
  show ?thesis unfolding np_mean_float64_def ps d by (rule r64_983_12)
qed

lemma np_mean_dos: "np_mean_float64 [80, 70] = 75"
proof -
  have s2: "(80 + 70 :: real) = 150" by simp
  have "pairwise_sum (map redondeo64 [80, 70]) = foldl suma_f64 0 [80, 70]"
    by (simp add: pairwise_sum_corta r64_80 r64_70)
  also have "\<dots> = suma_f64 80 70" by (simp only: foldl.simps suma_f64_cero r64_80)
  also have "\<dots> = 150" unfolding suma_f64_def by (simp only: s2 r64_150)
  finally have ps: "pairwise_sum (map redondeo64 [80, 70]) = 150" .
  have d: "(150 :: real) / real (length [80, 70 :: real]) = 75" by simp
  show ?thesis unfolding np_mean_float64_def ps d by (rule r64_75)
qed

lemma np_mean_uno: "np_mean_float64 [90] = 90"
proof -
  have "pairwise_sum (map redondeo64 [90]) = foldl suma_f64 0 [90]"
    by (simp add: pairwise_sum_corta r64_90)
  also have "\<dots> = 90" by (simp only: foldl.simps suma_f64_cero r64_90)
  finally have ps: "pairwise_sum (map redondeo64 [90]) = 90" .
  have d: "(90 :: real) / real (length [90 :: real]) = 90" by simp
  show ?thesis unfolding np_mean_float64_def ps d by (rule r64_90)
qed

lemma agrupar_ejemplo:
  "agrupar_paginas_en_documentos np_mean paginas_ejemplo =
     [emitir np_mean (extender_actual (nuevo_actual (paginas_ejemplo ! 0)) (paginas_ejemplo ! 1)),
      emitir np_mean (nuevo_actual (paginas_ejemplo ! 2))]"
  by (simp add: agrupar_paginas_en_documentos_def paginas_ejemplo_def tipo_de_def nuevo_actual_def
      extender_actual_def)

lemma agrupar_tres:
  "agrupar_paginas_en_documentos np_mean paginas_tres =
     [emitir np_mean (extender_actual (extender_actual (nuevo_actual (paginas_tres ! 0))
        (paginas_tres ! 1)) (paginas_tres ! 2))]"
  by (simp add: agrupar_paginas_en_documentos_def paginas_tres_def tipo_de_def nuevo_actual_def
      extender_actual_def)

lemma confs_ejemplo:
  "map ocr_conf (agrupar_paginas_en_documentos np_mean paginas_ejemplo) = [np_mean [80, 70], np_mean [90]]"
  unfolding agrupar_ejemplo
  by (simp add: paginas_ejemplo_def emitir_def media_def extender_actual_def nuevo_actual_def conf_de_def)

lemma confs_tres:
  "map ocr_conf (agrupar_paginas_en_documentos np_mean paginas_tres) = [np_mean [171 / 2, 361 / 4, 70]]"
  unfolding agrupar_tres
  by (simp add: paginas_tres_def emitir_def media_def extender_actual_def nuevo_actual_def conf_de_def)

text \<open>
  C7 (as amended). For every ordered list of pages, the Documents that
  \<^verbatim>\<open>agrupar_paginas_en_documentos\<close> emits correspond, one to one and in order, to a split
  of the page list into non-empty runs: concatenating the runs gives back the page list,
  each Document lists the page numbers of its run, every page of the run has the
  Document's type, the Document's confidence is the value \<^verbatim>\<open>np.mean\<close> returns for the
  list of the run's confidences, and consecutive Documents have different types (so each
  run is a maximal run of one type).
\<close>

theorem agrupar_paginas_corridas:
  "\<exists>runs. concat runs = paginas_info
        \<and> list_all2 (doc_de_corrida np_mean) (agrupar_paginas_en_documentos np_mean paginas_info) runs
        \<and> distinct_adj (map tipo_detectado (agrupar_paginas_en_documentos np_mean paginas_info))"
proof (cases paginas_info)
  case Nil
  then show ?thesis by (intro exI[of _ "[]"]) (simp add: agrupar_paginas_en_documentos_def)
next
  case (Cons p ps)
  from agrupar_loop_corridas[OF rep_nuevo[of p], of ps np_mean] Cons
  show ?thesis by (auto simp: agrupar_paginas_en_documentos_def)
qed

theorem agrupar_paginas_corridas_witness:
  "map paginas (agrupar_paginas_en_documentos np_mean_float64 paginas_ejemplo) = [[1, 2], [3]]
   \<and> map tipo_detectado (agrupar_paginas_en_documentos np_mean_float64 paginas_ejemplo) = [''carta'', ''rut'']
   \<and> map ocr_conf (agrupar_paginas_en_documentos np_mean_float64 paginas_ejemplo) = [75, 90]
   \<and> (\<exists>runs. concat runs = paginas_ejemplo
        \<and> list_all2 (doc_de_corrida np_mean_float64)
             (agrupar_paginas_en_documentos np_mean_float64 paginas_ejemplo) runs
        \<and> distinct_adj (map tipo_detectado (agrupar_paginas_en_documentos np_mean_float64 paginas_ejemplo)))"
proof -
  have a: "map paginas (agrupar_paginas_en_documentos np_mean_float64 paginas_ejemplo) = [[1, 2], [3]]"
    unfolding agrupar_ejemplo
    by (simp add: paginas_ejemplo_def emitir_def extender_actual_def nuevo_actual_def)
  have b: "map tipo_detectado (agrupar_paginas_en_documentos np_mean_float64 paginas_ejemplo) = [''carta'', ''rut'']"
    unfolding agrupar_ejemplo
    by (simp add: paginas_ejemplo_def emitir_def extender_actual_def nuevo_actual_def tipo_de_def)
  have c: "map ocr_conf (agrupar_paginas_en_documentos np_mean_float64 paginas_ejemplo) = [75, 90]"
    unfolding confs_ejemplo np_mean_dos np_mean_uno ..
  from agrupar_paginas_corridas[of paginas_ejemplo np_mean_float64] a b c show ?thesis by blast
qed

text \<open>
  C7 as stated fails in its last part: the confidence of a Document is the float64 that
  \<^verbatim>\<open>np.mean\<close> returns, not the arithmetic mean. For three pages of one letter with the
  confidences 85.5, 90.25 and 70.0 the sum 245.75 is exact, its third is not a float64,
  and the Document's confidence is the nearest one, 81.91666666666667
  (\<open>5764372960553643 / 2 ^ 46\<close>), while the arithmetic mean is \<open>983 / 12\<close>.
\<close>

theorem agrupar_media_aritmetica_counterexample:
  "map paginas (agrupar_paginas_en_documentos np_mean_float64 paginas_tres) = [[1, 2, 3]]
   \<and> map ocr_conf (agrupar_paginas_en_documentos np_mean_float64 paginas_tres)
       = [5764372960553643 / 2 ^ 46]
   \<and> sum_list (map conf_de paginas_tres) / real (length paginas_tres) = 983 / 12
   \<and> (5764372960553643 / 2 ^ 46 :: real) \<noteq> 983 / 12"
proof -
  have a: "map paginas (agrupar_paginas_en_documentos np_mean_float64 paginas_tres) = [[1, 2, 3]]"
    unfolding agrupar_tres
    by (simp add: paginas_tres_def emitir_def extender_actual_def nuevo_actual_def)
  have b: "map ocr_conf (agrupar_paginas_en_documentos np_mean_float64 paginas_tres)
       = [5764372960553643 / 2 ^ 46]"
    unfolding confs_tres np_mean_tres ..
  have c: "sum_list (map conf_de paginas_tres) / real (length paginas_tres) = 983 / 12"
    by (simp add: paginas_tres_def conf_de_def)
  have d: "(5764372960553643 / 2 ^ 46 :: real) \<noteq> 983 / 12" by simp
  from a b c d show ?thesis by (simp only: simp_thms)
qed

section \<open>Choosing the date of a document\<close>

lemma en_ventana_ok:
  "MINORD + 1825 \<le> hoy \<Longrightarrow> hoy + 365 \<le> MAXORD \<Longrightarrow>
     en_ventana hoy f = Inr (hoy - 1825 \<le> f \<and> f \<le> hoy + 365)"
  by (auto simp: en_ventana_def add_days_def MINORD_def MAXORD_def)

lemma filtrar_validas_ok:
  "MINORD + 1825 \<le> hoy \<Longrightarrow> hoy + 365 \<le> MAXORD \<Longrightarrow>
     filtrar_validas hoy fs = Inr (filter (\<lambda>f. hoy - 1825 \<le> f \<and> f \<le> hoy + 365) fs)"
  by (induction fs) (simp_all add: en_ventana_ok)

lemma fold_max_Max: "fold max ys (x::int) = Max (set (x # ys))"
  by (rule Max.set_eq_fold[symmetric])

lemma py_max_ok: "xs \<noteq> [] \<Longrightarrow> py_max xs = Inr (Max (set xs))"
  by (cases xs) (simp_all add: py_max_def fold_max_Max del: set_simps)

lemma set_fechas_unicas: "set (fechas_unicas xs) = set xs"
  by (simp add: fechas_unicas_def)

lemma fechas_unicas_vacia: "fechas_unicas xs = [] \<longleftrightarrow> xs = []"
  using set_fechas_unicas[of xs] by (metis set_empty)

lemma seleccionar_fecha_ok:
  assumes "MINORD + 1825 \<le> hoy" and "hoy + 365 \<le> MAXORD" and "u \<noteq> []"
  shows "seleccionar_fecha hoy u =
     Inr (Some (Max (set (if filter (\<lambda>f. hoy - 1825 \<le> f \<and> f \<le> hoy + 365) u = [] then u
                          else filter (\<lambda>f. hoy - 1825 \<le> f \<and> f \<le> hoy + 365) u))))"
proof (cases "length u > 1")
  case True
  let ?v = "filter (\<lambda>f. hoy - 1825 \<le> f \<and> f \<le> hoy + 365) u"
  have ne: "(if ?v = [] then u else ?v) \<noteq> []" using assms(3) by simp
  have "seleccionar_fecha hoy u =
     (case py_max (if ?v = [] then u else ?v) of Inl e \<Rightarrow> Inl e | Inr x \<Rightarrow> Inr (Some x))"
    using True assms(3) unfolding seleccionar_fecha_def filtrar_validas_ok[OF assms(1,2)] by simp
  also have "\<dots> = Inr (Some (Max (set (if ?v = [] then u else ?v))))"
    unfolding py_max_ok[OF ne] by simp
  finally show ?thesis .
next
  case False
  with assms(3) obtain x where u: "u = [x]" by (cases u) auto
  show ?thesis unfolding u by (simp add: seleccionar_fecha_def)
qed

text \<open>
  C4 (as amended). With the clock inside the range where both ends of the window are
  dates (\<open>hoy\<close> at least 1825 days after \<^verbatim>\<open>date.min\<close> and at least 365 days before
  \<^verbatim>\<open>date.max\<close>), \<^verbatim>\<open>extraer_fecha_mejorada\<close> never raises: it returns nothing when the
  passes yield no candidate; otherwise the maximum of the candidates inside the window
  from \<open>hoy\<close> minus 1825 days to \<open>hoy\<close> plus 365 days when there is one, and the
  maximum of all candidates when there is none. The window is counted in days, as the
  source computes it (\<^verbatim>\<open>timedelta(days=365*5)\<close>, \<^verbatim>\<open>timedelta(days=365)\<close>), not in
  calendar years.
\<close>

theorem extraer_fecha_mejorada_maximo:
  assumes "MINORD + 1825 \<le> hoy" and "hoy + 365 \<le> MAXORD"
  shows "extraer_fecha_mejorada pasadas hoy txt contexto_bancario =
     (let candidatas = pasadas txt contexto_bancario;
          en_ventana = filter (\<lambda>f. hoy - 1825 \<le> f \<and> f \<le> hoy + 365) candidatas
      in if candidatas = [] then Inr None
         else if en_ventana \<noteq> [] then Inr (Some (Max (set en_ventana)))
         else Inr (Some (Max (set candidatas))))"
proof (cases "pasadas txt contexto_bancario = []")
  case True
  have "fechas_unicas [] = []" by (simp add: fechas_unicas_def)
  then have "extraer_fecha_mejorada pasadas hoy txt contexto_bancario = Inr None"
    unfolding extraer_fecha_mejorada_def True by (simp add: seleccionar_fecha_def)
  then show ?thesis unfolding Let_def True by (simp only: simp_thms if_True)
next
  case False
  let ?xs = "pasadas txt contexto_bancario"
  let ?u = "fechas_unicas ?xs"
  let ?P = "\<lambda>f. hoy - 1825 \<le> f \<and> f \<le> hoy + 365"
  from False have ne: "?u \<noteq> []" by (simp add: fechas_unicas_vacia)
  have sf: "set (filter ?P ?u) = set (filter ?P ?xs)"
    by (simp only: set_filter set_fechas_unicas)
  have fe: "(filter ?P ?u = []) = (filter ?P ?xs = [])"
    unfolding set_empty[symmetric] by (simp only: sf)
  have "set (if filter ?P ?u = [] then ?u else filter ?P ?u) =
        set (if filter ?P ?xs = [] then ?xs else filter ?P ?xs)"
  proof (cases "filter ?P ?xs = []")
    case True
    with fe have "filter ?P ?u = []" by blast
    with True show ?thesis by (simp only: simp_thms if_True set_fechas_unicas)
  next
    case False
    with fe have "filter ?P ?u \<noteq> []" by blast
    with False show ?thesis by (simp only: simp_thms if_False sf)
  qed
  then have "seleccionar_fecha hoy ?u =
      Inr (Some (Max (set (if filter ?P ?xs = [] then ?xs else filter ?P ?xs))))"
    unfolding seleccionar_fecha_ok[OF assms ne] by (simp only:)
  then show ?thesis using False unfolding extraer_fecha_mejorada_def Let_def
    by (cases "filter ?P ?xs = []") (simp_all only: simp_thms if_True if_False)
qed

theorem extraer_fecha_mejorada_maximo_witness:
  "MINORD + 1825 \<le> 740000 \<and> 740000 + 365 \<le> MAXORD
   \<and> extraer_fecha_mejorada (\<lambda>t b. [737000, 739900, 739000, 745000, 739900]) 740000 [] False
       = Inr (Some 739900)
   \<and> extraer_fecha_mejorada (\<lambda>t b. [733000, 735000]) 740000 [] False = Inr (Some 735000)
   \<and> extraer_fecha_mejorada (\<lambda>t b. []) 740000 [] False = Inr None"
proof -
  have a: "MINORD + 1825 \<le> 740000" by (simp add: MINORD_def)
  have b: "740000 + 365 \<le> MAXORD" by (simp add: MAXORD_def)
  note t = extraer_fecha_mejorada_maximo[OF a b, of _ "[]" False]
  have c: "extraer_fecha_mejorada (\<lambda>t b. [737000, 739900, 739000, 745000, 739900]) 740000 [] False
       = Inr (Some 739900)" unfolding t by simp
  have d: "extraer_fecha_mejorada (\<lambda>t b. [733000, 735000]) 740000 [] False = Inr (Some 735000)"
    unfolding t by simp
  have e: "extraer_fecha_mejorada (\<lambda>t b. []) 740000 [] False = Inr None"
    unfolding t by simp
  from a b c d e show ?thesis by blast
qed

text \<open>
  C4 as stated fails: with the clock at 2027-01-19 (ordinal 740000) and the candidates
  2022-01-19 and 2028-01-20, the first candidate lies exactly five calendar years back,
  inside the window of the specification, which therefore selects it. The code's window
  starts 1825 days back, on 2022-01-20 (2024 is a leap year), so no candidate is inside
  it and the code returns the maximum of all candidates, 2028-01-20.
\<close>

theorem extraer_fecha_ventana_anios_counterexample:
  "ymd2ord 2027 1 19 = 740000
   \<and> pasadas_dos [] False = [738174, 740366]
   \<and> seleccion_ventana_anios 2027 1 19 (pasadas_dos [] False) = Some 738174
   \<and> extraer_fecha_mejorada pasadas_dos 740000 [] False = Inr (Some 740366)"
proof -
  have a: "ymd2ord 2027 1 19 = 740000" by code_simp
  have b: "pasadas_dos [] False = [738174, 740366]" by code_simp
  have c: "mismo_dia 2022 1 19 = 738174" by code_simp
  have d: "mismo_dia 2028 1 19 = 740365" by code_simp
  have e: "seleccion_ventana_anios 2027 1 19 [738174, 740366] = Some 738174"
    by (simp add: seleccion_ventana_anios_def en_ventana_anios_def c d)
  have f: "MINORD + 1825 \<le> 740000" by (simp add: MINORD_def)
  have g: "740000 + 365 \<le> MAXORD" by (simp add: MAXORD_def)
  have h: "fechas_unicas [738174, 740366] = [738174, 740366]" by (simp add: fechas_unicas_def)
  have i: "extraer_fecha_mejorada pasadas_dos 740000 [] False = Inr (Some 740366)"
    unfolding extraer_fecha_mejorada_def b h using seleccionar_fecha_ok[OF f g, of "[738174, 740366]"]
    by simp
  from a b e i show ?thesis by (simp only: simp_thms)
qed

section \<open>The numeric date pass\<close>

text \<open>
  C3, on the code: in the text \<^verbatim>\<open>2024-05-07\<close> the pattern matches with its second
  alternative (groups 4 to 6: 2024, 05, 07). The two-digit-year adjustment is applied to
  the third number before the orderings are tried, so the day 7 becomes 2007; the D-M-Y
  test fails on 2024 as a day and the Y-M-D test fails on 2007 as a day, and the pass
  yields no candidate, where the claim has it yield 2024-05-07 (ordinal 739013). The same
  date written D-M-Y is found.
\<close>

theorem pasada_numerica_ymd_sin_candidata:
  "finditer_desde None (limpiar_texto_fecha ''2024-05-07'')
     = [[None, None, None, Some ''2024'', Some ''05'', Some ''07'']]
   \<and> leer_grupos ''2024'' ''05'' ''07'' = ([], True)
   \<and> pasada_numerica ''2024-05-07'' = []
   \<and> mk_date 2024 5 7 = Inr 739013
   \<and> pasada_numerica ''07/05/2024'' = [739013]"
  by code_simp

section \<open>Document classification\<close>

lemma sumar_keyword_puntaje:
  "sumar_keyword nombre tc a kw = a + puntaje (lower nombre) tc [kw]"
  by (simp add: sumar_keyword_def puntaje_def Let_def)

lemma puntaje_Cons: "puntaje n tc (kw # kws) = puntaje n tc [kw] + puntaje n tc kws"
  by (simp add: puntaje_def)

lemma foldl_sumar_keyword:
  "foldl (sumar_keyword nombre tc) a kws = a + puntaje (lower nombre) tc kws"
proof (induction kws arbitrary: a)
  case Nil
  show ?case by (simp add: puntaje_def)
next
  case (Cons kw kws)
  have "foldl (sumar_keyword nombre tc) a (kw # kws) =
        foldl (sumar_keyword nombre tc) (a + puntaje (lower nombre) tc [kw]) kws"
    by (simp add: sumar_keyword_puntaje)
  also have "\<dots> = a + puntaje (lower nombre) tc [kw] + puntaje (lower nombre) tc kws"
    by (rule Cons.IH)
  finally show ?case using puntaje_Cons[of "lower nombre" tc kw kws] by simp
qed

lemma score_tipo_puntaje: "score_tipo nombre tc kws = puntaje (lower nombre) tc kws"
  by (simp add: score_tipo_def foldl_sumar_keyword)

lemma fold_max_cero: "fold max (ys::nat list) y = 0 \<longleftrightarrow> y = 0 \<and> (\<forall>v \<in> set ys. v = 0)"
  by (induction ys arbitrary: y) (auto simp: max_def)

lemma max_key_gen:
  assumes "i < length ps" and "ps ! i = b"
    and "\<forall>j < length ps. snd (ps ! j) \<le> snd b"
    and "\<forall>j < i. snd (ps ! j) < snd b"
  shows "\<exists>k < length (ps @ xs). max_key b xs = fst ((ps @ xs) ! k)
           \<and> (\<forall>j < length (ps @ xs). snd ((ps @ xs) ! j) \<le> snd ((ps @ xs) ! k))
           \<and> (\<forall>j < k. snd ((ps @ xs) ! j) < snd ((ps @ xs) ! k))"
  using assms
proof (induction xs arbitrary: ps b i)
  case Nil
  then show ?case by (intro exI[of _ i]) simp
next
  case (Cons x xs)
  show ?case
  proof (cases "snd x > snd b")
    case True
    have "\<exists>k < length ((ps @ [x]) @ xs). max_key x xs = fst (((ps @ [x]) @ xs) ! k)
           \<and> (\<forall>j < length ((ps @ [x]) @ xs). snd (((ps @ [x]) @ xs) ! j) \<le> snd (((ps @ [x]) @ xs) ! k))
           \<and> (\<forall>j < k. snd (((ps @ [x]) @ xs) ! j) < snd (((ps @ [x]) @ xs) ! k))"
    proof (rule Cons.IH[of "length ps" "ps @ [x]" x])
      show "length ps < length (ps @ [x])" by simp
      show "(ps @ [x]) ! length ps = x" by simp
      show "\<forall>j<length (ps @ [x]). snd ((ps @ [x]) ! j) \<le> snd x"
        using Cons.prems(3) True by (auto simp: nth_append less_Suc_eq)
      show "\<forall>j<length ps. snd ((ps @ [x]) ! j) < snd x"
        using Cons.prems(3) True by (auto simp: nth_append)
    qed
    with True show ?thesis by simp
  next
    case False
    have "\<exists>k < length ((ps @ [x]) @ xs). max_key b xs = fst (((ps @ [x]) @ xs) ! k)
           \<and> (\<forall>j < length ((ps @ [x]) @ xs). snd (((ps @ [x]) @ xs) ! j) \<le> snd (((ps @ [x]) @ xs) ! k))
           \<and> (\<forall>j < k. snd (((ps @ [x]) @ xs) ! j) < snd (((ps @ [x]) @ xs) ! k))"
    proof (rule Cons.IH[of i "ps @ [x]" b])
      show "i < length (ps @ [x])" using Cons.prems(1) by simp
      show "(ps @ [x]) ! i = b" using Cons.prems(1,2) by (simp add: nth_append)
      show "\<forall>j<length (ps @ [x]). snd ((ps @ [x]) ! j) \<le> snd b"
        using Cons.prems(3) False by (auto simp: nth_append less_Suc_eq)
      show "\<forall>j<i. snd ((ps @ [x]) ! j) < snd b"
        using Cons.prems(1,4) by (auto simp: nth_append)
    qed
    with False show ?thesis by simp
  qed
qed

lemma max_key_primero_maximo:
  "\<exists>k < length (x # xs). max_key x xs = fst ((x # xs) ! k)
      \<and> (\<forall>j < length (x # xs). snd ((x # xs) ! j) \<le> snd ((x # xs) ! k))
      \<and> (\<forall>j < k. snd ((x # xs) ! j) < snd ((x # xs) ! k))"
  using max_key_gen[of 0 "[x]" x xs] by simp

lemma clasificar_con_maximo:
  fixes tabla :: "(string \<times> string list) list" and nombre :: string and texto_ocr :: string
  defines "tc \<equiv> normalizar_completo (nombre @ '' '' @ texto_ocr)"
  defines "ss \<equiv> map (\<lambda>(doc_type, kws). puntaje (lower nombre) tc kws) tabla"
  shows "if (\<forall>s \<in> set ss. s = 0) then clasificar_con tabla nombre texto_ocr = ''otro''
         else (\<exists>i < length tabla. clasificar_con tabla nombre texto_ocr = fst (tabla ! i)
                 \<and> (\<forall>j < length ss. ss ! j \<le> ss ! i) \<and> (\<forall>j < i. ss ! j < ss ! i))"
proof -
  let ?scores = "map (\<lambda>(doc_type, kws). (doc_type, score_tipo nombre tc kws)) tabla"
  have snd_scores: "map snd ?scores = ss"
    by (auto simp: ss_def score_tipo_puntaje split: prod.splits)
  have fst_scores: "map fst ?scores = map fst tabla"
    by (auto split: prod.splits)
  have len: "length ?scores = length tabla" by simp
  show ?thesis
  proof (cases ?scores)
    case Nil
    then have "tabla = []" by simp
    then show ?thesis by (simp add: clasificar_con_def ss_def)
  next
    case (Cons x xs)
    have cero: "fold max (map snd xs) (snd x) = 0 \<longleftrightarrow> (\<forall>s \<in> set ss. s = 0)"
      using snd_scores Cons by (auto simp: fold_max_cero simp flip: snd_scores)
    have def: "clasificar_con tabla nombre texto_ocr =
                 (if fold max (map snd xs) (snd x) = 0 then ''otro'' else max_key x xs)"
      using Cons by (simp add: clasificar_con_def tc_def Let_def)
    show ?thesis
    proof (cases "\<forall>s \<in> set ss. s = 0")
      case True
      then show ?thesis using def cero by simp
    next
      case False
      from max_key_primero_maximo[of x xs] obtain k where k: "k < length (x # xs)"
        "max_key x xs = fst ((x # xs) ! k)"
        "\<forall>j < length (x # xs). snd ((x # xs) ! j) \<le> snd ((x # xs) ! k)"
        "\<forall>j < k. snd ((x # xs) ! j) < snd ((x # xs) ! k)" by blast
      have kl: "k < length tabla" using k(1) len Cons by simp
      have nth_snd: "\<And>j. j < length tabla \<Longrightarrow> snd ((x # xs) ! j) = ss ! j"
        using snd_scores Cons len by (metis length_map nth_map)
      have nth_fst: "fst ((x # xs) ! k) = fst (tabla ! k)"
        using fst_scores Cons kl len by (metis length_map nth_map)
      have lss: "length ss = length tabla" by (simp add: ss_def)
      have a: "\<forall>j < length ss. ss ! j \<le> ss ! k"
        using k(3) nth_snd kl lss len Cons by (metis)
      have b: "\<forall>j < k. ss ! j < ss ! k"
        using k(4) nth_snd kl by (metis less_trans)
      have "clasificar_con tabla nombre texto_ocr = fst (tabla ! k)"
        using def cero False k(2) nth_fst by simp
      with a b kl False show ?thesis by auto
    qed
  qed
qed

lemma otro_no_es_tipo: "''otro'' \<notin> set (map fst DOC_KEYWORDS)"
  by code_simp

text \<open>
  C8 (as amended). \<^verbatim>\<open>clasificar_documento_robusto\<close> returns the type with the maximum
  score, where the score of a type is 3 for each keyword (lower case, accents removed)
  found in the lower-cased file name, which is otherwise left as it is, plus 1 for each
  keyword found in the normalised combined text, plus 2 for each keyword of several words
  all of which occur in the combined text. Among types with the maximum score the first in
  declaration order wins, and the result is \<^verbatim>\<open>otro\<close> exactly when every score is zero.
  \<open>puntajes\<close> lists the scores in declaration order.
\<close>

theorem clasificar_documento_robusto_maximo:
  "if (\<forall>s \<in> set (puntajes nombre txt). s = 0)
   then clasificar_documento_robusto nombre txt = ''otro''
   else clasificar_documento_robusto nombre txt \<noteq> ''otro''
      \<and> (\<exists>i < length DOC_KEYWORDS.
            clasificar_documento_robusto nombre txt = fst (DOC_KEYWORDS ! i)
            \<and> (\<forall>j < length DOC_KEYWORDS. puntajes nombre txt ! j \<le> puntajes nombre txt ! i)
            \<and> (\<forall>j < i. puntajes nombre txt ! j < puntajes nombre txt ! i))"
proof -
  have G: "if (\<forall>s \<in> set (puntajes nombre txt). s = 0)
           then clasificar_documento_robusto nombre txt = ''otro''
           else (\<exists>i < length DOC_KEYWORDS.
              clasificar_documento_robusto nombre txt = fst (DOC_KEYWORDS ! i)
              \<and> (\<forall>j < length (puntajes nombre txt). puntajes nombre txt ! j \<le> puntajes nombre txt ! i)
              \<and> (\<forall>j < i. puntajes nombre txt ! j < puntajes nombre txt ! i))"
    unfolding puntajes_def clasificar_documento_robusto_def
    by (rule clasificar_con_maximo)
  have l: "length (puntajes nombre txt) = length DOC_KEYWORDS" by (simp add: puntajes_def)
  show ?thesis
  proof (cases "\<forall>s \<in> set (puntajes nombre txt). s = 0")
    case True
    from G have "clasificar_documento_robusto nombre txt = ''otro''" unfolding if_P[OF True] .
    then show ?thesis unfolding if_P[OF True] .
  next
    case False
    from G obtain i where i: "i < length DOC_KEYWORDS"
      "clasificar_documento_robusto nombre txt = fst (DOC_KEYWORDS ! i)"
      "\<forall>j < length (puntajes nombre txt). puntajes nombre txt ! j \<le> puntajes nombre txt ! i"
      "\<forall>j < i. puntajes nombre txt ! j < puntajes nombre txt ! i"
      unfolding if_not_P[OF False] by blast
    have "fst (DOC_KEYWORDS ! i) \<in> set (map fst DOC_KEYWORDS)" using i(1) by simp
    with otro_no_es_tipo i(2) have ne: "clasificar_documento_robusto nombre txt \<noteq> ''otro''" by metis
    from ne i l show ?thesis unfolding if_not_P[OF False] by metis
  qed
qed

subsection \<open>Scores of concrete file names\<close>

lemma kn_tabla: "map (\<lambda>(t, kws). map keyword_normalized kws) DOC_KEYWORDS = KN"
  by code_simp

lemma ws_tabla: "map (map split) KN = WS"
  by code_simp

lemma puntaje_cuentas:
  "puntaje n tc kws =
     3 * cuenta n (map keyword_normalized kws) + cuenta tc (map keyword_normalized kws)
     + 2 * cuenta_palabras tc (map split (map keyword_normalized kws))"
  by (simp add: puntaje_def cuenta_def cuenta_palabras_def filter_map o_def)

lemma map_suma3:
  "map (\<lambda>x. 3 * f x + g x + 2 * h x) xs =
     map (\<lambda>(a, b, c). 3 * a + b + 2 * (c::nat)) (zip (map f xs) (zip (map g xs) (map h xs)))"
  by (induction xs) simp_all

lemma puntaje_tabla:
  "map (\<lambda>(doc_type, kws). puntaje n tc kws) DOC_KEYWORDS =
     map (\<lambda>(a, b, c). 3 * a + b + 2 * c)
       (zip (map (cuenta n) KN) (zip (map (cuenta tc) KN) (map (cuenta_palabras tc) WS)))"
proof -
  have "map (\<lambda>(doc_type, kws). puntaje n tc kws) DOC_KEYWORDS =
        map (\<lambda>ks. 3 * cuenta n ks + cuenta tc ks + 2 * cuenta_palabras tc (map split ks))
          (map (\<lambda>(t, kws). map keyword_normalized kws) DOC_KEYWORDS)"
    by (auto simp: puntaje_cuentas split: prod.splits)
  also have "\<dots> = map (\<lambda>ks. 3 * cuenta n ks + cuenta tc ks + 2 * cuenta_palabras tc (map split ks)) KN"
    unfolding kn_tabla ..
  also have "\<dots> = map (\<lambda>(a, b, c). 3 * a + b + 2 * c)
       (zip (map (cuenta n) KN) (zip (map (cuenta tc) KN) (map (\<lambda>ks. cuenta_palabras tc (map split ks)) KN)))"
    by (rule map_suma3)
  also have "map (\<lambda>ks. cuenta_palabras tc (map split ks)) KN = map (cuenta_palabras tc) (map (map split) KN)"
    by (simp add: o_def)
  finally show ?thesis unfolding ws_tabla .
qed

lemma cert_nombre: "map (cuenta (lower ''certificacion_bancaria_empresa.pdf'')) KN = [0, 0, 0, 1, 0, 0, 0, 0, 0]"
  by code_simp

lemma cert_tc: "normalizar_completo (''certificacion_bancaria_empresa.pdf'' @ '' '' @ []) = ''certificacion_bancaria_empresa pdf''"
  by code_simp

lemma cert_texto: "map (cuenta ''certificacion_bancaria_empresa pdf'') KN = [0, 0, 0, 1, 0, 0, 0, 0, 0]"
  by code_simp

lemma cert_palabras: "map (cuenta_palabras ''certificacion_bancaria_empresa pdf'') WS = [0, 0, 0, 2, 0, 0, 0, 0, 0]"
  by code_simp

lemma cert_puntajes: "puntajes ''certificacion_bancaria_empresa.pdf'' [] = [0, 0, 0, 8, 0, 0, 0, 0, 0]"
  unfolding puntajes_def puntaje_tabla cert_nombre cert_tc cert_texto cert_palabras by simp

lemma largo_tabla: "length DOC_KEYWORDS = 9"
proof -
  have "length (map (\<lambda>(t, kws). map keyword_normalized kws) DOC_KEYWORDS) = length KN"
    unfolding kn_tabla ..
  then show ?thesis by (simp add: KN_def)
qed

lemma clasificar_primero_maximo:
  assumes "puntajes nombre texto_ocr = ss" and "k < length DOC_KEYWORDS" and "0 < ss ! k"
    and "list_all (\<lambda>x. x \<le> ss ! k) ss" and "list_all (\<lambda>x. x < ss ! k) (take k ss)"
  shows "clasificar_documento_robusto nombre texto_ocr = fst (DOC_KEYWORDS ! k)"
proof -
  have l: "length ss = length DOC_KEYWORDS" using assms(1) by (auto simp: puntajes_def)
  have nz: "\<not> (\<forall>s \<in> set ss. s = 0)" using assms(2,3) l by (metis less_numeral_extra(3) nth_mem)
  have G: "if (\<forall>s \<in> set ss. s = 0)
           then clasificar_documento_robusto nombre texto_ocr = ''otro''
           else (\<exists>i < length DOC_KEYWORDS.
              clasificar_documento_robusto nombre texto_ocr = fst (DOC_KEYWORDS ! i)
              \<and> (\<forall>j < length ss. ss ! j \<le> ss ! i) \<and> (\<forall>j < i. ss ! j < ss ! i))"
    unfolding assms(1)[symmetric] puntajes_def clasificar_documento_robusto_def
    by (rule clasificar_con_maximo)
  then obtain i where i: "i < length DOC_KEYWORDS"
      "clasificar_documento_robusto nombre texto_ocr = fst (DOC_KEYWORDS ! i)"
      "\<forall>j < length ss. ss ! j \<le> ss ! i" "\<forall>j < i. ss ! j < ss ! i"
    unfolding if_not_P[OF nz] by blast
  have a: "\<forall>j < length ss. ss ! j \<le> ss ! k" using assms(4) by (simp add: list_all_length)
  have b: "\<forall>j < k. ss ! j < ss ! k" using assms(2,5) l by (simp add: list_all_length)
  have "i = k"
  proof (rule ccontr)
    assume "i \<noteq> k"
    then consider "i < k" | "k < i" by linarith
    then show False
    proof cases
      case 1
      with b have "ss ! i < ss ! k" by simp
      moreover from i(3) assms(2) l have "ss ! k \<le> ss ! i" by simp
      ultimately show False by simp
    next
      case 2
      with i(4) have "ss ! k < ss ! i" by simp
      moreover from a i(1) l have "ss ! i \<le> ss ! k" by simp
      ultimately show False by simp
    qed
  qed
  with i(2) show ?thesis by simp
qed

lemma cr_lower: "lower (''contrato resoluci'' @ [CHR 0xF3] @ ''n.pdf'') = ''contrato resoluci'' @ [CHR 0xF3] @ ''n.pdf''"
  by code_simp

lemma cr_norm: "normalizar_completo (''contrato resoluci'' @ [CHR 0xF3] @ ''n.pdf'') = ''contrato resolucion pdf''"
  by code_simp

lemma cr_tc: "normalizar_completo ((''contrato resoluci'' @ [CHR 0xF3] @ ''n.pdf'') @ '' '' @ []) = ''contrato resolucion pdf''"
  by code_simp

lemma cr_nombre: "map (cuenta (''contrato resoluci'' @ [CHR 0xF3] @ ''n.pdf'')) KN = [0, 0, 0, 0, 0, 0, 0, 0, 1]"
  by code_simp

lemma cr_texto: "map (cuenta ''contrato resolucion pdf'') KN = [0, 0, 0, 0, 0, 2, 0, 0, 1]"
  by code_simp

lemma cr_palabras: "map (cuenta_palabras ''contrato resolucion pdf'') WS = [0, 0, 0, 0, 0, 0, 0, 0, 0]"
  by code_simp

lemma cr_puntajes: "puntajes (''contrato resoluci'' @ [CHR 0xF3] @ ''n.pdf'') [] = [0, 0, 0, 0, 0, 2, 0, 0, 4]"
  unfolding puntajes_def puntaje_tabla cr_lower cr_tc cr_nombre cr_texto cr_palabras by simp

lemma cr_puntajes_nn:
  "puntajes_nombre_normalizado (''contrato resoluci'' @ [CHR 0xF3] @ ''n.pdf'') [] = [0, 0, 0, 0, 0, 8, 0, 0, 4]"
  unfolding puntajes_nombre_normalizado_def puntaje_tabla cr_norm cr_tc cr_texto cr_palabras by simp

lemma tipos_tabla: "map fst DOC_KEYWORDS = [''carta'', ''rut'', ''camara_comercio'', ''cert_bancaria'',
      ''recibo_pago'', ''resolucion'', ''tarjeta_profesional'', ''acta_consorcial'', ''contrato'']"
  by code_simp

lemma tipo_nth: "k < 9 \<Longrightarrow> fst (DOC_KEYWORDS ! k) = map fst DOC_KEYWORDS ! k"
  using largo_tabla by simp

text \<open>
  The file name \<^verbatim>\<open>certificacion_bancaria_empresa.pdf\<close> with empty OCR text scores 8 for
  the bank certificate and 0 elsewhere, and classifies as \<^verbatim>\<open>cert_bancaria\<close>.
\<close>

theorem clasificar_documento_robusto_maximo_witness:
  "puntajes ''certificacion_bancaria_empresa.pdf'' [] = [0, 0, 0, 8, 0, 0, 0, 0, 0]
   \<and> fst (DOC_KEYWORDS ! 3) = ''cert_bancaria''
   \<and> clasificar_documento_robusto ''certificacion_bancaria_empresa.pdf'' [] = ''cert_bancaria''
   \<and> clasificar_documento_robusto ''certificacion_bancaria_empresa.pdf'' [] \<noteq> ''otro''"
proof -
  note a = cert_puntajes
  have b: "fst (DOC_KEYWORDS ! 3) = ''cert_bancaria''" unfolding tipo_nth[of 3, simplified] tipos_tabla by simp
  have nz: "\<not> (\<forall>s \<in> set (puntajes ''certificacion_bancaria_empresa.pdf'' []). s = 0)"
    unfolding a by simp
  from clasificar_documento_robusto_maximo[of "''certificacion_bancaria_empresa.pdf''" "[]"]
  have t: "clasificar_documento_robusto ''certificacion_bancaria_empresa.pdf'' [] \<noteq> ''otro''
      \<and> (\<exists>i < length DOC_KEYWORDS.
            clasificar_documento_robusto ''certificacion_bancaria_empresa.pdf'' [] = fst (DOC_KEYWORDS ! i)
            \<and> (\<forall>j < length DOC_KEYWORDS. [0, 0, 0, 8, 0, 0, 0, 0, 0] ! j \<le> [0, 0, 0, 8, 0, 0, 0, 0, 0::nat] ! i)
            \<and> (\<forall>j < i. [0, 0, 0, 8, 0, 0, 0, 0, 0] ! j < [0, 0, 0, 8, 0, 0, 0, 0, 0::nat] ! i))"
    unfolding if_not_P[OF nz] unfolding a .
  then obtain i where i: "i < 9"
      "clasificar_documento_robusto ''certificacion_bancaria_empresa.pdf'' [] = fst (DOC_KEYWORDS ! i)"
      "\<forall>j < 9. [0, 0, 0, 8, 0, 0, 0, 0, 0] ! j \<le> [0, 0, 0, 8, 0, 0, 0, 0, 0::nat] ! i"
    unfolding largo_tabla by blast
  have "(3::nat) < 9" by simp
  with i(3) have "[0, 0, 0, 8, 0, 0, 0, 0, 0] ! 3 \<le> [0, 0, 0, 8, 0, 0, 0, 0, 0::nat] ! i" by blast
  then have g: "8 \<le> [0, 0, 0, 8, 0, 0, 0, 0, 0::nat] ! i" by simp
  have "i = 3"
  proof (rule ccontr)
    assume n: "i \<noteq> 3"
    from i(1) have "i \<in> {0, 1, 2, 3, 4, 5, 6, 7, 8}" by auto
    with n have "[0, 0, 0, 8, 0, 0, 0, 0, 0::nat] ! i = 0" by auto
    with g show False by simp
  qed
  with i(2) b have e: "clasificar_documento_robusto ''certificacion_bancaria_empresa.pdf'' [] = ''cert_bancaria''"
    by simp
  from a b e t show ?thesis by blast
qed

text \<open>
  C8 as stated fails on a file name with an accent: for \<^verbatim>\<open>contrato resolucion.pdf\<close>
  written with its accented o and empty OCR text, scoring the keywords against the
  normalised file name gives 8 for \<^verbatim>\<open>resolucion\<close> and 4 for \<^verbatim>\<open>contrato\<close>, but the
  code compares against the lower-cased name, in which the accent-free keyword does not
  occur: it scores 2 and 4 and returns \<^verbatim>\<open>contrato\<close>.
\<close>

theorem clasificar_nombre_normalizado_counterexample:
  "puntajes_nombre_normalizado (''contrato resoluci'' @ [CHR 0xF3] @ ''n.pdf'') [] = [0, 0, 0, 0, 0, 8, 0, 0, 4]
   \<and> fst (DOC_KEYWORDS ! 5) = ''resolucion''
   \<and> puntajes (''contrato resoluci'' @ [CHR 0xF3] @ ''n.pdf'') [] = [0, 0, 0, 0, 0, 2, 0, 0, 4]
   \<and> clasificar_documento_robusto (''contrato resoluci'' @ [CHR 0xF3] @ ''n.pdf'') [] = ''contrato''"
proof -
  have b: "fst (DOC_KEYWORDS ! 5) = ''resolucion''" unfolding tipo_nth[of 5, simplified] tipos_tabla by simp
  have c: "fst (DOC_KEYWORDS ! 8) = ''contrato''" unfolding tipo_nth[of 8, simplified] tipos_tabla by simp
  have "clasificar_documento_robusto (''contrato resoluci'' @ [CHR 0xF3] @ ''n.pdf'') [] = fst (DOC_KEYWORDS ! 8)"
    by (rule clasificar_primero_maximo[OF cr_puntajes]) (simp_all add: largo_tabla)
  with b c cr_puntajes cr_puntajes_nn show ?thesis by simp
qed

section \<open>Inferring checklist items from a file name\<close>

lemma set_unicos: "set (unicos xs) = set xs"
  by (simp add: unicos_def)

lemma set_frases_de:
  "set (frases_de it) =
     {f. f \<noteq> [] \<and> f \<in> set (normalizar_texto (titulo it) # map normalizar_texto (item_keywords it))}"
  by (auto simp: frases_de_def set_unicos)

lemma item_detectado_iff:
  "item_detectado nm it \<longleftrightarrow> (\<exists>f \<in> set (frases_de it). f \<noteq> [] \<and> contiene nm f)"
  by (auto simp: item_detectado_def find_None_iff)

lemma inferir_detecta:
  assumes "nombre \<noteq> []" and "normalizar_texto nombre = nm" and "nm \<noteq> []"
    and "\<not> list_ex (contiene nm) todo_markers"
    and "it \<in> set (CHECKLIST tipo)" and "kw \<in> set (item_keywords it)"
    and "normalizar_texto kw = f" and "f \<noteq> []" and "contiene nm f"
  shows "item_id it \<in> set (inferir_items_desde_nombre nombre tipo)"
proof -
  have "f \<in> set (frases_de it)" using assms(6,7,8) by (auto simp: set_frases_de)
  then have d: "item_detectado nm it" using assms(8,9) by (auto simp: item_detectado_iff)
  let ?detected = "map item_id (filter (item_detectado nm) (CHECKLIST tipo))"
  have m: "item_id it \<in> set ?detected" using d assms(5) by auto
  then have ne: "?detected \<noteq> []" by (metis empty_iff empty_set)
  have "inferir_items_desde_nombre nombre tipo = sort (unicos ?detected)"
    using assms(1,2,3,4) ne by (simp add: inferir_items_desde_nombre_def Let_def)
  then show ?thesis using m by (simp add: set_unicos)
qed

lemma nt_rut_anexos: "normalizar_texto ''rut anexos.pdf'' = ''rut''"
  by code_simp

lemma nt_rut: "normalizar_texto ''rut'' = ''rut''"
  by code_simp

text \<open>
  C9, on the code: the file name \<^verbatim>\<open>rut anexos.pdf\<close> contains the marker \<^verbatim>\<open>anexos\<close>,
  which the docstring of \<^verbatim>\<open>inferir_items_desde_nombre\<close> names first among the markers
  that make it return the empty list. The markers are looked for in the normalised name,
  and \<^verbatim>\<open>normalizar_texto\<close> cuts the name off at the word \<^verbatim>\<open>anexos\<close>: the normalised name
  is \<^verbatim>\<open>rut\<close>, no marker is left in it, and the item \<^verbatim>\<open>rut\<close> is inferred.
\<close>

theorem inferir_anexos_infiere_rut:
  "contiene ''rut anexos.pdf'' ''anexos'' \<and> ''anexos'' \<in> set todo_markers
   \<and> normalizar_texto ''rut anexos.pdf'' = ''rut''
   \<and> list_ex (contiene ''rut'') todo_markers = False
   \<and> ''rut'' \<in> set (inferir_items_desde_nombre ''rut anexos.pdf'' ''misional'')
   \<and> inferir_items_desde_nombre ''rut anexos.pdf'' ''misional'' \<noteq> []"
proof -
  have a: "contiene ''rut anexos.pdf'' ''anexos''" by code_simp
  have b: "''anexos'' \<in> set todo_markers" by (simp add: todo_markers_def)
  have c: "\<not> list_ex (contiene ''rut'') todo_markers" by code_simp
  have d: "it_rut \<in> set (CHECKLIST ''misional'')" by (simp add: CHECKLIST_def CHECKLIST_misional_def)
  have e: "''rut'' \<in> set (item_keywords it_rut)" by (simp add: it_rut_def)
  have f: "contiene ''rut'' ''rut''" by simp
  have "item_id it_rut \<in> set (inferir_items_desde_nombre ''rut anexos.pdf'' ''misional'')"
    by (rule inferir_detecta[OF _ nt_rut_anexos _ c d e nt_rut _ f]) simp_all
  then have g: "''rut'' \<in> set (inferir_items_desde_nombre ''rut anexos.pdf'' ''misional'')"
    by (simp add: it_rut_def)
  then have h: "inferir_items_desde_nombre ''rut anexos.pdf'' ''misional'' \<noteq> []" by auto
  from a b nt_rut_anexos c g h show ?thesis by blast
qed

section \<open>Idempotence of the normalisers\<close>

subsection \<open>Replacement under a condition on the neighbours\<close>















subsection \<open>Substitution\<close>



subsection \<open>Collapsing and stripping\<close>












subsection \<open>The alphabet of a normalised text\<close>

lemma cp_igual: "cp c = cp d \<longleftrightarrow> c = d"
  by (simp add: cp_def)

lemma cp_espacio: "cp c = 32 \<longleftrightarrow> c = CHR '' ''"
  using cp_igual[of c "CHR '' ''"] by (simp add: cp_def)

lemma alfanumerico_cp:
  "alfanumerico c \<longleftrightarrow> (97 \<le> cp c \<and> cp c \<le> 122) \<or> (48 \<le> cp c \<and> cp c \<le> 57) \<or> cp c = 32"
  by (simp add: alfanumerico_def is_digit_def cp_espacio)






lemma espacio_alfanumerico: "alfanumerico c \<Longrightarrow> is_space c \<Longrightarrow> c = CHR '' ''"
  by (auto simp: alfanumerico_cp is_space_def cp_espacio)






subsection \<open>A normalised text is left as it is\<close>












subsection \<open>Both normalisers\<close>







end
